theory Spec2Isabelle
  imports Complex_Main "HOL-Library.Word" "HOL-Library.AList"
begin

section \<open>Data model\<close>

text \<open>
  The peer service of the file-transfer client (the class \<open>PeerService\<close>) and the part of
  the \<open>App\<close> component that guards \<open>connect\<close>. Every handler is embedded as a function from
  the service state to the service state; what a handler does to the outside world (a
  message sent on a channel, a callback delivered to a subscriber, a dial requested from
  the channel provider, a timer armed) is appended to a log held in the state.

  Conventions of the embedding:
  \<^item> a byte is an \<open>8 word\<close>, an \<open>ArrayBuffer\<close> a list of bytes;
  \<open>Math.ceil\<close>, \<open>/\<close> and \<open>*\<close> on JavaScript numbers are computed exactly on
  rationals, a division by zero giving \<open>Infinity\<close> or \<open>NaN\<close> as in the source language;
  \<^item> \<open>window.crypto.subtle.digest\<close> belongs to the platform, so the digest primitive is
  a parameter \<open>dg\<close> of every function that hashes; the hexadecimal rendering around it is
  the source's;
  \<^item> \<open>localStorage\<close> holds the transfer records themselves under the keys
  \<open>transfer_\<close> followed by the transfer id, the JSON text in between being left out;
  \<^item> a subscriber is a callback identified by a number, and each of its calls is logged
  with the argument it received. In the protocol handlers and in the reconnection logic
  the subscribers are taken to return; for \<open>removeFile\<close> the \<open>forEach\<close> over the subscribers
  is embedded with callbacks that may throw;
  \<^item> the \<open>data\<close> callback of a connection is asynchronous and nobody awaits it: the
  handler of \<open>file-chunk\<close> waits for the digest before it reads the record, the other
  handlers run at once. \<open>onData\<close> is a handler run to its end; \<open>react\<close> and \<open>run\<close> split
  the chunk handler at its wait and follow any order of arrivals and digest completions.
\<close>

type_synonym byte = "8 word"

type_synonym digest = "byte list \<Rightarrow> byte list"

datatype status = Pending | Transferring | Completed | Error | Removed

datatype jsnum = Num rat | Infinity | NaN

record chunk_counters =
  total' :: nat
  transferred :: nat

record FileTransfer =
  id' :: string
  filename :: string
  size' :: nat
  progress :: jsnum
  status :: status
  error :: "string option"
  type' :: string
  lastModified :: int
  speed :: jsnum
  remainingTime :: jsnum
  chunks :: chunk_counters
  hash :: string

text \<open>
  The argument of a file-transfer callback: a transfer record, or the two-field object
  \<open>{ id, status }\<close> that \<open>removeFile\<close> casts to a transfer.
\<close>

datatype transfer_event = Transfer FileTransfer | IdStatus string status

fun event_id :: "transfer_event \<Rightarrow> string" where
  "event_id (Transfer t) = id' t"
| "event_id (IdStatus i s) = i"

fun event_status :: "transfer_event \<Rightarrow> status" where
  "event_status (Transfer t) = status t"
| "event_status (IdStatus i s) = s"

fun event_progress :: "transfer_event \<Rightarrow> jsnum option" where
  "event_progress (Transfer t) = Some (progress t)"
| "event_progress (IdStatus i s) = None"

datatype message =
    Heartbeat int
  | HeartbeatAck int
  | Disconnect string
  | FileStart FileTransfer
  | FileChunk string "byte list" nat string
  | FileEnd string string
  | Unknown string

datatype exn = Exn string

record DataConnection =
  conn_peer :: string
  conn_open :: bool

record ConnectionState =
  isConnecting :: bool
  lastError :: "string option"

type_synonym listener = nat

record PeerService =
  peer :: "string option"
  connections :: "(string \<times> DataConnection) list"
  fileTransferListeners :: "listener list"
  connectionListeners :: "listener list"
  peersUpdateListeners :: "listener list"
  reconnectAttempts :: "string \<rightharpoonup> nat"
  reconnectTimeouts :: "string \<rightharpoonup> nat"
  connectionStates :: "string \<rightharpoonup> ConnectionState"
  fileData :: "string \<rightharpoonup> byte list"
  localStorage :: "string \<rightharpoonup> FileTransfer"
  heartbeatTimers :: "string list"
  sent :: "(string \<times> message) list"
  dialed :: "string list"
  armed :: "(string \<times> nat) list"
  transferCalls :: "(listener \<times> transfer_event) list"
  connectionCalls :: "(listener \<times> string \<times> string \<times> bool \<times> string option) list"
  peersCalls :: "(listener \<times> (string \<times> string \<times> bool) list) list"

definition CHUNK_SIZE :: nat where
  "CHUNK_SIZE = 512 * 1024"

definition MAX_RECONNECT_ATTEMPTS :: nat where
  "MAX_RECONNECT_ATTEMPTS = 5"

section \<open>Integrity codec\<close>

definition hexDigit :: "nat \<Rightarrow> char" where
  "hexDigit n = ''0123456789abcdef'' ! n"

text \<open>\<open>b.toString(16)\<close> for a byte: one digit below sixteen, two digits otherwise.\<close>

definition toString16 :: "byte \<Rightarrow> string" where
  "toString16 b =
     (if unat b < 16 then [hexDigit (unat b)]
      else [hexDigit (unat b div 16), hexDigit (unat b mod 16)])"

definition padStart :: "nat \<Rightarrow> char \<Rightarrow> string \<Rightarrow> string" where
  "padStart n c s = replicate (n - length s) c @ s"

definition calculateHash :: "digest \<Rightarrow> byte list \<Rightarrow> string" where
  "calculateHash dg data = concat (map (\<lambda>b. padStart 2 CHR ''0'' (toString16 b)) (dg data))"

section \<open>Transfer record store and subscribers\<close>

definition key :: "string \<Rightarrow> string" where
  "key fileId = ''transfer_'' @ fileId"

definition notifyFileTransfer :: "PeerService \<Rightarrow> transfer_event \<Rightarrow> PeerService" where
  "notifyFileTransfer st ev =
     st\<lparr>transferCalls := transferCalls st @ map (\<lambda>l. (l, ev)) (fileTransferListeners st)\<rparr>"

text \<open>
  \<open>listeners.forEach((listener) => listener(transfer))\<close> with callbacks that may throw:
  \<open>beh l ev\<close> is what subscriber \<open>l\<close> throws when called with \<open>ev\<close>, \<open>None\<close> when it
  returns. The first exception ends the loop and leaves it; the subscribers after it are
  not called.
\<close>

type_synonym behaviour = "listener \<Rightarrow> transfer_event \<Rightarrow> exn option"

fun forEach ::
  "behaviour \<Rightarrow> transfer_event \<Rightarrow> listener list
     \<Rightarrow> (listener \<times> transfer_event) list \<times> exn option" where
  "forEach beh ev [] = ([], None)"
| "forEach beh ev (l # ls) =
     (case beh l ev of
        Some e \<Rightarrow> ([(l, ev)], Some e)
      | None \<Rightarrow> (case forEach beh ev ls of (cs, r) \<Rightarrow> ((l, ev) # cs, r)))"

definition notifyFileTransferWith ::
  "behaviour \<Rightarrow> PeerService \<Rightarrow> transfer_event \<Rightarrow> PeerService \<times> exn option" where
  "notifyFileTransferWith beh st ev =
     (case forEach beh ev (fileTransferListeners st) of
        (cs, r) \<Rightarrow> (st\<lparr>transferCalls := transferCalls st @ cs\<rparr>, r))"

definition notifyConnectionStatus ::
  "PeerService \<Rightarrow> string \<Rightarrow> string \<Rightarrow> bool \<Rightarrow> string option \<Rightarrow> PeerService" where
  "notifyConnectionStatus st peerId username connected' reason =
     st\<lparr>connectionCalls := connectionCalls st @
          map (\<lambda>l. (l, peerId, username, connected', reason)) (connectionListeners st)\<rparr>"

definition onFileTransfer :: "PeerService \<Rightarrow> listener \<Rightarrow> PeerService" where
  "onFileTransfer st callback = st\<lparr>fileTransferListeners := fileTransferListeners st @ [callback]\<rparr>"

definition onConnection :: "PeerService \<Rightarrow> listener \<Rightarrow> PeerService" where
  "onConnection st callback = st\<lparr>connectionListeners := connectionListeners st @ [callback]\<rparr>"

definition send :: "PeerService \<Rightarrow> string \<Rightarrow> message \<Rightarrow> PeerService" where
  "send st peerId m = st\<lparr>sent := sent st @ [(peerId, m)]\<rparr>"

section \<open>Receiver side of the chunked transfer protocol\<close>

text \<open>\<open>(a / b) * 100\<close> on two counters.\<close>

definition percent :: "nat \<Rightarrow> nat \<Rightarrow> jsnum" where
  "percent a b =
     (if b \<noteq> 0 then Num (of_nat a / of_nat b * 100)
      else if 0 < a then Infinity else NaN)"

definition handleFileStart :: "PeerService \<Rightarrow> FileTransfer \<Rightarrow> PeerService" where
  "handleFileStart st transfer =
     notifyFileTransfer
       (st\<lparr>localStorage := (localStorage st)(key (id' transfer) \<mapsto> transfer)\<rparr>)
       (Transfer transfer)"

definition handleFileChunk ::
  "digest \<Rightarrow> PeerService \<Rightarrow> string \<Rightarrow> byte list \<Rightarrow> string \<Rightarrow> exn + PeerService" where
  "handleFileChunk dg st fileId chunk chunkHash =
     (if calculateHash dg chunk \<noteq> chunkHash then Inl (Exn ''Chunk integrity check failed'')
      else
        case localStorage st (key fileId) of
          None \<Rightarrow> Inr st
        | Some transfer \<Rightarrow>
            let existingData = (case fileData st fileId of None \<Rightarrow> [] | Some d \<Rightarrow> d);
                newData = existingData @ chunk;
                st1 = st\<lparr>fileData := (fileData st)(fileId \<mapsto> newData)\<rparr>;
                n = Suc (transferred (chunks transfer));
                transfer1 = transfer\<lparr>chunks := (chunks transfer)\<lparr>transferred := n\<rparr>\<rparr>;
                transfer2 = transfer1\<lparr>progress := percent n (total' (chunks transfer1))\<rparr>;
                st2 = st1\<lparr>localStorage := (localStorage st1)(key fileId \<mapsto> transfer2)\<rparr>
            in Inr (notifyFileTransfer st2 (Transfer transfer2)))"

definition handleFileEnd :: "PeerService \<Rightarrow> string \<Rightarrow> string \<Rightarrow> PeerService" where
  "handleFileEnd st fileId fileHash =
     (case localStorage st (key fileId) of
        None \<Rightarrow> st
      | Some transfer \<Rightarrow>
          let transfer1 =
                (if hash transfer \<noteq> fileHash
                 then transfer\<lparr>status := Error, error := Some ''File integrity check failed''\<rparr>
                 else transfer\<lparr>status := Completed, progress := Num 100\<rparr>);
              st1 = st\<lparr>localStorage := (localStorage st)(key fileId \<mapsto> transfer1)\<rparr>
          in notifyFileTransfer st1 (Transfer transfer1))"

text \<open>
  The blob handed to the browser by \<open>downloadFile\<close>: the stored bytes, the MIME type and
  the file name of the record. The service state is not changed.
\<close>

record Download =
  blob_data :: "byte list"
  blob_type :: string
  download :: string

definition downloadFile :: "PeerService \<Rightarrow> string \<Rightarrow> exn + Download" where
  "downloadFile st fileId =
     (case localStorage st (key fileId) of
        None \<Rightarrow> Inl (Exn ''File not found'')
      | Some transfer \<Rightarrow>
          (case fileData st fileId of
             None \<Rightarrow> Inl (Exn ''File data not found'')
           | Some d \<Rightarrow>
               Inr \<lparr>blob_data = d, blob_type = type' transfer, download = filename transfer\<rparr>))"

text \<open>
  \<open>removeFile\<close> returns the state it leaves and the exception that leaves it, if a
  subscriber throws one. The two deletions come before the subscribers are called.
\<close>

definition removeFile :: "behaviour \<Rightarrow> PeerService \<Rightarrow> string \<Rightarrow> PeerService \<times> exn option" where
  "removeFile beh st fileId =
     notifyFileTransferWith beh
       (st\<lparr>localStorage := (localStorage st)(key fileId := None),
           fileData := (fileData st)(fileId := None)\<rparr>)
       (IdStatus fileId Removed)"

section \<open>Session manager\<close>

text \<open>
  What the channel provider answers to a dial: the channel opens, or it reports an error
  with a message. \<open>connect\<close> settles on the first of the two.
\<close>

datatype dial = Opened | Failed string

definition updatePeersList :: "PeerService \<Rightarrow> PeerService" where
  "updatePeersList st =
     (let peers = map (\<lambda>(i, c). (i, ''Peer-'' @ take 4 i, conn_open c)) (connections st)
      in st\<lparr>peersCalls := peersCalls st @ map (\<lambda>l. (l, peers)) (peersUpdateListeners st)\<rparr>)"

definition handleConnection :: "PeerService \<Rightarrow> DataConnection \<Rightarrow> PeerService" where
  "handleConnection st conn =
     updatePeersList
       (notifyConnectionStatus
          (st\<lparr>connections := AList.update (conn_peer conn) conn (connections st)\<rparr>)
          (conn_peer conn) ''Unknown'' True None)"

text \<open>
  \<open>connect\<close> returns the state it leaves and the error of a rejected promise, if any. The
  dial itself is logged whether the channel opens or not.
\<close>

definition connect :: "PeerService \<Rightarrow> string \<Rightarrow> dial \<Rightarrow> PeerService \<times> exn option" where
  "connect st remotePeerId d =
     (if peer st = None then (st, Some (Exn ''Peer not initialized''))
      else
        let st1 = st\<lparr>dialed := dialed st @ [remotePeerId]\<rparr> in
        case d of
          Opened \<Rightarrow> (handleConnection st1 \<lparr>conn_peer = remotePeerId, conn_open = True\<rparr>, None)
        | Failed m \<Rightarrow> (st1, Some (Exn m)))"

text \<open>\<open>conn.close()\<close> inside the data handler of the connection registered for a peer.\<close>

definition closeConn :: "PeerService \<Rightarrow> string \<Rightarrow> PeerService" where
  "closeConn st p =
     st\<lparr>connections :=
          map (\<lambda>(i, c). if i = p then (i, c\<lparr>conn_open := False\<rparr>) else (i, c)) (connections st)\<rparr>"

text \<open>
  The \<open>data\<close> handler that \<open>handleConnection\<close> registers on the connection of peer \<open>p\<close>.
  A handler whose promise is rejected leaves the state as it was and the error unhandled.
  No branch of the handler matches \<open>heartbeat-ack\<close> or a message of another kind. The
  desktop notifications of the two file branches do not touch the service.
\<close>

definition onData :: "digest \<Rightarrow> PeerService \<Rightarrow> string \<Rightarrow> message \<Rightarrow> PeerService \<times> exn option" where
  "onData dg st p m =
     (case m of
        Heartbeat ts \<Rightarrow> (send st p (HeartbeatAck ts), None)
      | Disconnect reason \<Rightarrow>
          (closeConn (notifyConnectionStatus st p ''Unknown'' False (Some reason)) p, None)
      | FileStart transfer \<Rightarrow> (handleFileStart st transfer, None)
      | FileChunk fileId chunk off chunkHash \<Rightarrow>
          (case handleFileChunk dg st fileId chunk chunkHash of
             Inl e \<Rightarrow> (st, Some e)
           | Inr st1 \<Rightarrow> (st1, None))
      | FileEnd fileId fileHash \<Rightarrow> (handleFileEnd st fileId fileHash, None)
      | HeartbeatAck ts \<Rightarrow> (st, None)
      | Unknown k \<Rightarrow> (st, None))"

text \<open>The messages of one connection, handled in arrival order.\<close>

fun deliver :: "digest \<Rightarrow> PeerService \<Rightarrow> string \<Rightarrow> message list \<Rightarrow> PeerService" where
  "deliver dg st p [] = st"
| "deliver dg st p (m # ms) = deliver dg (fst (onData dg st p m)) p ms"

text \<open>
  The asynchronous receiver. A \<open>file-chunk\<close> message that arrives only starts its digest:
  the handler is parked with the transfer id, the bytes and the claimed digest. When the
  digest of a parked handler completes (\<open>Resolved k\<close> for the \<open>k\<close>-th parked one, in any
  order), the rest of \<open>handleFileChunk\<close> runs in one piece. Every other message is handled at
  once, whatever is parked.
\<close>

type_synonym parked = "(string \<times> byte list \<times> string) list"

datatype occurrence = Data message | Resolved nat

definition resume :: "digest \<Rightarrow> PeerService \<Rightarrow> string \<times> byte list \<times> string \<Rightarrow> PeerService" where
  "resume dg st x =
     (case x of
        (fileId, chunk, chunkHash) \<Rightarrow>
          (case handleFileChunk dg st fileId chunk chunkHash of
             Inl e \<Rightarrow> st
           | Inr st1 \<Rightarrow> st1))"

fun react :: "digest \<Rightarrow> string \<Rightarrow> PeerService \<times> parked \<Rightarrow> occurrence \<Rightarrow> PeerService \<times> parked" where
  "react dg p (st, q) (Data (FileChunk fileId chunk off chunkHash)) =
     (st, q @ [(fileId, chunk, chunkHash)])"
| "react dg p (st, q) (Data m) = (fst (onData dg st p m), q)"
| "react dg p (st, q) (Resolved k) =
     (if k < length q then (resume dg st (q ! k), take k q @ drop (Suc k) q) else (st, q))"

fun run :: "digest \<Rightarrow> string \<Rightarrow> PeerService \<times> parked \<Rightarrow> occurrence list \<Rightarrow> PeerService \<times> parked" where
  "run dg p sq [] = sq"
| "run dg p sq (x # xs) = run dg p (react dg p sq x) xs"

text \<open>
  The order of occurrences in which every digest completes before the next message
  arrives: this is what \<open>deliver\<close> follows.
\<close>

fun eager :: "message list \<Rightarrow> occurrence list" where
  "eager [] = []"
| "eager (FileChunk fileId chunk off chunkHash # ms) =
     Data (FileChunk fileId chunk off chunkHash) # Resolved 0 # eager ms"
| "eager (m # ms) = Data m # eager ms"

section \<open>Liveness and reconnection\<close>

definition tryReconnect :: "PeerService \<Rightarrow> string \<Rightarrow> dial \<Rightarrow> PeerService" where
  "tryReconnect st peerId d =
     (let st1 = (case reconnectTimeouts st peerId of
                   None \<Rightarrow> st
                 | Some existingTimeout \<Rightarrow>
                     st\<lparr>reconnectTimeouts := (reconnectTimeouts st)(peerId := None)\<rparr>);
          state = (case connectionStates st1 peerId of
                     None \<Rightarrow> \<lparr>isConnecting = False, lastError = None\<rparr>
                   | Some s \<Rightarrow> s)
      in
        if isConnecting state then st1
        else
          let attempts = (case reconnectAttempts st1 peerId of None \<Rightarrow> 0 | Some n \<Rightarrow> n) in
          if attempts \<ge> MAX_RECONNECT_ATTEMPTS
          then notifyConnectionStatus st1 peerId ''Unknown'' False
                 (Some ''Max reconnection attempts reached'')
          else
            let st2 = st1\<lparr>connectionStates :=
                            (connectionStates st1)(peerId \<mapsto> state\<lparr>isConnecting := True\<rparr>),
                          reconnectAttempts := (reconnectAttempts st1)(peerId \<mapsto> attempts + 1)\<rparr>
            in
              case connect st2 peerId d of
                (st3, None) \<Rightarrow>
                  st3\<lparr>reconnectAttempts := (reconnectAttempts st3)(peerId := None),
                      connectionStates :=
                        (connectionStates st3)
                          (peerId \<mapsto> state\<lparr>isConnecting := False, lastError := None\<rparr>)\<rparr>
              | (st3, Some (Exn msg)) \<Rightarrow>
                  st3\<lparr>connectionStates :=
                        (connectionStates st3)
                          (peerId \<mapsto> state\<lparr>isConnecting := False, lastError := Some msg\<rparr>),
                      reconnectTimeouts :=
                        (reconnectTimeouts st3)(peerId \<mapsto> min (1000 * 2 ^ attempts) 30000),
                      armed := armed st3 @ [(peerId, min (1000 * 2 ^ attempts) 30000)]\<rparr>)"

text \<open>
  A pending reconnection timer of a peer fires: its callback is \<open>tryReconnect\<close>. The timer
  a peer has armed is the entry of \<open>reconnectTimeouts\<close>, kept as its delay in milliseconds;
  every \<open>setTimeout\<close> of \<open>tryReconnect\<close> is also logged in \<open>armed\<close>, with the peer and the delay.
\<close>

definition fireReconnectTimer :: "PeerService \<Rightarrow> string \<Rightarrow> dial \<Rightarrow> PeerService option" where
  "fireReconnectTimer st peerId d =
     (case reconnectTimeouts st peerId of
        None \<Rightarrow> None
      | Some delay \<Rightarrow> Some (tryReconnect st peerId d))"

text \<open>
  A chain of reconnection timers: every dial answer of the list is consumed by one firing,
  and the chain stops where no timer is armed.
\<close>

fun fireAll :: "PeerService \<Rightarrow> string \<Rightarrow> dial list \<Rightarrow> PeerService" where
  "fireAll st peerId [] = st"
| "fireAll st peerId (d # ds) =
     (case fireReconnectTimer st peerId d of
        None \<Rightarrow> st
      | Some st1 \<Rightarrow> fireAll st1 peerId ds)"

definition handleConnectionTimeout :: "PeerService \<Rightarrow> string \<Rightarrow> dial \<Rightarrow> PeerService" where
  "handleConnectionTimeout st peerId d =
     (let st1 = (case connectionStates st peerId of
                   None \<Rightarrow> st
                 | Some s \<Rightarrow>
                     st\<lparr>connectionStates :=
                          (connectionStates st)(peerId \<mapsto> s\<lparr>lastError := Some ''heartbeat-timeout''\<rparr>)\<rparr>);
          st2 = notifyConnectionStatus st1 peerId ''Unknown'' False (Some ''Connection timeout'')
      in tryReconnect st2 peerId d)"

text \<open>
  One tick of the ten-second heartbeat interval, at clock reading \<open>now\<close>: the body of the
  \<open>forEach\<close> for one connection, and the tick over all of them. Each armed five-second
  watch is kept in \<open>heartbeatTimers\<close> until it fires; the source never cancels one.
\<close>

definition heartbeatPeer :: "int \<Rightarrow> string \<times> DataConnection \<Rightarrow> PeerService \<Rightarrow> PeerService" where
  "heartbeatPeer now e st =
     (if conn_open (snd e)
      then (send st (fst e) (Heartbeat now))\<lparr>heartbeatTimers := heartbeatTimers st @ [fst e]\<rparr>
      else st)"

definition heartbeatTick :: "int \<Rightarrow> PeerService \<Rightarrow> PeerService" where
  "heartbeatTick now st = fold (heartbeatPeer now) (connections st) st"

definition fireHeartbeatTimer :: "PeerService \<Rightarrow> string \<Rightarrow> dial \<Rightarrow> PeerService option" where
  "fireHeartbeatTimer st peerId d =
     (if peerId \<notin> set (heartbeatTimers st) then None
      else
        let st1 = st\<lparr>heartbeatTimers := remove1 peerId (heartbeatTimers st)\<rparr> in
        Some (if map_of (connections st1) peerId \<noteq> None \<and>
                 (case connectionStates st1 peerId of None \<Rightarrow> None | Some s \<Rightarrow> lastError s)
                   \<noteq> Some ''heartbeat-timeout''
              then handleConnectionTimeout st1 peerId d
              else st1))"

section \<open>The connect guard of the App component\<close>

record User =
  user_id :: string
  user_name :: string

datatype toast = ToastError string | ToastSuccess string

text \<open>
  The App's own connection callback is one of the opaque subscribers of the service; what
  it does to the App is not followed here.
\<close>

record App =
  currentUser :: "User option"
  app_isConnecting :: bool
  toasts :: "toast list"
  service :: PeerService

definition handleConnect :: "App \<Rightarrow> string \<Rightarrow> dial \<Rightarrow> App" where
  "handleConnect app remotePeerId d =
     (if map_option user_id (currentUser app) = Some remotePeerId
      then app\<lparr>toasts := toasts app @ [ToastError (''You can'' @ [CHR 0x27] @ ''t connect to yourself!'')]\<rparr>
      else
        let app1 = app\<lparr>app_isConnecting := True\<rparr> in
        case connect (service app1) remotePeerId d of
          (s, None) \<Rightarrow> app1\<lparr>service := s\<rparr>
        | (s, Some (Exn msg)) \<Rightarrow>
            app1\<lparr>service := s,
                 toasts := toasts app1 @ [ToastError (''Connection failed: '' @ msg)],
                 app_isConnecting := False\<rparr>)"

section \<open>Sender side of the chunked transfer protocol\<close>

record File =
  file_bytes :: "byte list"
  file_name :: string
  file_type :: string
  file_lastModified :: int

text \<open>\<open>file.slice(a, b)\<close> for \<open>a \<le> b\<close>: the bytes from \<open>a\<close> up to \<open>b\<close>, cut at the end of the file.\<close>

definition slice' :: "byte list \<Rightarrow> nat \<Rightarrow> nat \<Rightarrow> byte list" where
  "slice' bs a b = take (b - a) (drop a bs)"

text \<open>\<open>Math.ceil(a / b)\<close> on two counters.\<close>

definition ceil_div :: "nat \<Rightarrow> nat \<Rightarrow> nat" where
  "ceil_div a b = nat \<lceil>(of_nat a :: rat) / of_nat b\<rceil>"

text \<open>\<open>a / b\<close> for a counter \<open>a\<close> and a number \<open>b\<close> that is not negative.\<close>

definition js_div :: "nat \<Rightarrow> rat \<Rightarrow> jsnum" where
  "js_div a b = (if b \<noteq> 0 then Num (of_nat a / b) else if 0 < a then Infinity else NaN)"

text \<open>
  The variables that the closures \<open>readNextChunk\<close> and \<open>reader.onload\<close> share, the number
  of clock readings taken so far, and the service. \<open>Date.now()\<close> is the parameter \<open>clock\<close>:
  its \<open>k\<close>-th reading is \<open>clock k\<close>. Every read of the \<open>FileReader\<close> is taken to succeed.
\<close>

record sender =
  offset :: nat
  lastUpdate :: int
  bytesTransferred :: nat
  readings :: nat
  svc :: PeerService

text \<open>
  \<open>reader.onload\<close> for the chunk that was read. If the record has left \<open>localStorage\<close> when
  a progress sample is due, the assignment to \<open>updatedTransfer.chunks.transferred\<close> throws
  and the callback ends there, with the chunk sent and no next chunk read.
\<close>

definition onload ::
  "digest \<Rightarrow> (nat \<Rightarrow> int) \<Rightarrow> File \<Rightarrow> string \<Rightarrow> string \<Rightarrow> sender \<Rightarrow> byte list
     \<Rightarrow> sender \<times> exn option" where
  "onload dg clock file peerId fileId s chunkData =
     (let chunkHash = calculateHash dg chunkData;
          st1 = send (svc s) peerId (FileChunk fileId chunkData (offset s) chunkHash);
          s1 = s\<lparr>svc := st1,
                 offset := offset s + length chunkData,
                 bytesTransferred := bytesTransferred s + length chunkData,
                 readings := Suc (readings s)\<rparr>;
          now = clock (readings s);
          timeDiff = (of_int (now - lastUpdate s) :: rat) / 1000
      in
        if timeDiff \<ge> 1 / 10 then
          let speed1 = of_nat (bytesTransferred s1) / timeDiff;
              remainingBytes = length (file_bytes file) - offset s1
          in
            case localStorage st1 (key fileId) of
              None \<Rightarrow> (s1, Some (Exn ''TypeError''))
            | Some stored \<Rightarrow>
                let updatedTransfer =
                      stored\<lparr>progress := percent (offset s1) (length (file_bytes file)),
                             speed := Num speed1,
                             remainingTime := js_div remainingBytes speed1,
                             chunks := (chunks stored)\<lparr>transferred := ceil_div (offset s1) CHUNK_SIZE\<rparr>\<rparr>;
                    st2 = st1\<lparr>localStorage := (localStorage st1)(key fileId \<mapsto> updatedTransfer)\<rparr>;
                    st3 = notifyFileTransfer st2 (Transfer updatedTransfer)
                in (s1\<lparr>svc := st3, lastUpdate := now, bytesTransferred := 0\<rparr>, None)
        else (s1, None))"

lemma onload_offset:
  "offset (fst (onload dg clock file peerId fileId s chunkData)) = offset s + length chunkData"
  by (simp add: onload_def Let_def split: option.splits)

lemma slice_nonempty: "a < length bs \<Longrightarrow> 0 < n \<Longrightarrow> slice' bs a (a + n) \<noteq> []"
  by (simp add: slice'_def)

lemma CHUNK_SIZE_pos: "0 < CHUNK_SIZE"
  by (simp add: CHUNK_SIZE_def)

function readNextChunk ::
  "digest \<Rightarrow> (nat \<Rightarrow> int) \<Rightarrow> File \<Rightarrow> string \<Rightarrow> string \<Rightarrow> string \<Rightarrow> sender
     \<Rightarrow> sender \<times> exn option" where
  "readNextChunk dg clock file peerId fileId fileHash s =
     (if offset s \<ge> length (file_bytes file)
      then (s\<lparr>svc := send (svc s) peerId (FileEnd fileId fileHash)\<rparr>, None)
      else
        let chunk = slice' (file_bytes file) (offset s) (offset s + CHUNK_SIZE);
            r = onload dg clock file peerId fileId s chunk
        in
          if snd r = None then readNextChunk dg clock file peerId fileId fileHash (fst r)
          else r)"
  by pat_completeness auto

termination
proof (relation "measure (\<lambda>(dg, clock, file, peerId, fileId, fileHash, s).
                            length (file_bytes file) - offset s)")
  show "wf (measure (\<lambda>(dg, clock, file, peerId, fileId, fileHash, s).
                       length (file_bytes file) - offset s))"
    by simp
next
  fix dg :: digest and clock :: "nat \<Rightarrow> int" and fl :: File
    and peerId fileId fileHash :: string and s :: sender and x xa
  assume lt: "\<not> length (file_bytes fl) \<le> offset s"
    and x: "x = slice' (file_bytes fl) (offset s) (offset s + CHUNK_SIZE)"
    and xa: "xa = onload dg clock fl peerId fileId s x"
  have "x \<noteq> []"
    using lt x slice_nonempty [of "offset s" "file_bytes fl" CHUNK_SIZE] CHUNK_SIZE_pos
    by simp
  then have len: "0 < length x" by simp
  have off: "offset (fst xa) = offset s + length x"
    using xa onload_offset by simp
  from lt len
  have "length (file_bytes fl) - (offset s + length x) < length (file_bytes fl) - offset s"
    by arith
  then show "((dg, clock, fl, peerId, fileId, fileHash, fst xa),
              (dg, clock, fl, peerId, fileId, fileHash, s))
             \<in> measure (\<lambda>(dg, clock, file, peerId, fileId, fileHash, s).
                           length (file_bytes file) - offset s)"
    using off by simp
qed

declare readNextChunk.simps [simp del]

text \<open>The transfer record that \<open>sendFile\<close> builds, stores and announces in \<open>file-start\<close>.\<close>

definition newTransfer :: "File \<Rightarrow> string \<Rightarrow> string \<Rightarrow> FileTransfer" where
  "newTransfer file fileId fileHash =
     \<lparr>id' = fileId,
      filename = file_name file,
      size' = length (file_bytes file),
      progress = Num 0,
      status = Transferring,
      error = None,
      type' = (if file_type file = [] then ''application/octet-stream'' else file_type file),
      lastModified = file_lastModified file,
      speed = Num 0,
      remainingTime = Num 0,
      chunks = \<lparr>total' = ceil_div (length (file_bytes file)) CHUNK_SIZE, transferred = 0\<rparr>,
      hash = fileHash\<rparr>"

text \<open>
  \<open>sendFile\<close>, with the random transfer id as the parameter \<open>fileId\<close>. The promise of
  \<open>sendFile\<close> is rejected only when no connection is registered for the peer; the other
  error is the one of a callback that ended early.
\<close>

definition sendFile ::
  "digest \<Rightarrow> (nat \<Rightarrow> int) \<Rightarrow> PeerService \<Rightarrow> File \<Rightarrow> string \<Rightarrow> string
     \<Rightarrow> PeerService \<times> exn option" where
  "sendFile dg clock st file peerId fileId =
     (case map_of (connections st) peerId of
        None \<Rightarrow> (st, Some (Exn ''No connection to peer''))
      | Some conn \<Rightarrow>
          let fileHash = calculateHash dg (file_bytes file);
              transfer = newTransfer file fileId fileHash;
              st1 = st\<lparr>localStorage := (localStorage st)(key fileId \<mapsto> transfer)\<rparr>;
              st2 = send st1 peerId (FileStart transfer);
              r = readNextChunk dg clock file peerId fileId fileHash
                    \<lparr>offset = 0, lastUpdate = clock 0, bytesTransferred = 0,
                     readings = 1, svc = st2\<rparr>
          in (svc (fst r), snd r))"

text \<open>
  The fields of a service object as its class initialises them, before \<open>initialize\<close> has
  created the local peer, with an empty \<open>localStorage\<close> and empty logs.
\<close>

definition newPeerService :: PeerService where
  "newPeerService =
     \<lparr>peer = None, connections = [], fileTransferListeners = [], connectionListeners = [],
      peersUpdateListeners = [], reconnectAttempts = Map.empty, reconnectTimeouts = Map.empty,
      connectionStates = Map.empty, fileData = Map.empty, localStorage = Map.empty,
      heartbeatTimers = [], sent = [], dialed = [], armed = [], transferCalls = [], connectionCalls = [],
      peersCalls = []\<rparr>"

section \<open>Observations on the logs\<close>

text \<open>
  What the sender's rule says the \<open>k\<close>-th chunk is: the bytes from \<open>k * CHUNK_SIZE\<close> on, at
  most \<open>CHUNK_SIZE\<close> of them, sent with its offset and its digest.
\<close>

definition chunkAt :: "byte list \<Rightarrow> nat \<Rightarrow> byte list" where
  "chunkAt bs k = take CHUNK_SIZE (drop (k * CHUNK_SIZE) bs)"

definition chunkMsg :: "digest \<Rightarrow> byte list \<Rightarrow> string \<Rightarrow> nat \<Rightarrow> message" where
  "chunkMsg dg bs fileId k =
     FileChunk fileId (chunkAt bs k) (k * CHUNK_SIZE) (calculateHash dg (chunkAt bs k))"

text \<open>The offsets and the payloads of the \<open>file-chunk\<close> messages of a list, in order.\<close>

fun chunk_offsets :: "message list \<Rightarrow> nat list" where
  "chunk_offsets [] = []"
| "chunk_offsets (FileChunk i c off h # ms) = off # chunk_offsets ms"
| "chunk_offsets (m # ms) = chunk_offsets ms"

fun chunk_payloads :: "message list \<Rightarrow> byte list list" where
  "chunk_payloads [] = []"
| "chunk_payloads (FileChunk i c off h # ms) = c # chunk_payloads ms"
| "chunk_payloads (m # ms) = chunk_payloads ms"





definition ownKeys :: "PeerService \<Rightarrow> bool" where
  "ownKeys st = (\<forall>i t. localStorage st (key i) = Some t \<longrightarrow> id' t = i)"





text \<open>
  What \<open>tryReconnect\<close> reads for a peer: the attempt counter (\<open>|| 0\<close>) and the connection
  state (\<open>|| { isConnecting: false }\<close>). \<open>maxReached\<close> is the call a connection subscriber
  gets when the attempts are used up.
\<close>

definition attemptsOf :: "PeerService \<Rightarrow> string \<Rightarrow> nat" where
  "attemptsOf st peerId = (case reconnectAttempts st peerId of None \<Rightarrow> 0 | Some n \<Rightarrow> n)"

definition stateOf :: "PeerService \<Rightarrow> string \<Rightarrow> ConnectionState" where
  "stateOf st peerId =
     (case connectionStates st peerId of
        None \<Rightarrow> \<lparr>isConnecting = False, lastError = None\<rparr>
      | Some s \<Rightarrow> s)"

definition maxReached ::
  "string \<Rightarrow> listener \<Rightarrow> listener \<times> string \<times> string \<times> bool \<times> string option" where
  "maxReached p l = (l, p, ''Unknown'', False, Some ''Max reconnection attempts reached'')"

section \<open>Integrity codec: the shape of a digest string\<close>

lemma length_padStart_toString16: "length (padStart 2 c (toString16 b)) = 2"
  by (simp add: padStart_def toString16_def)

lemma length_calculateHash: "length (calculateHash dg bs) = 2 * length (dg bs)"
  by (simp add: calculateHash_def length_concat comp_def length_padStart_toString16 sum_list_triv)

text \<open>Two hexadecimal digits per byte: a string of odd length is the digest of nothing.\<close>

lemma calculateHash_neq_odd: "odd (length h) \<Longrightarrow> calculateHash dg bs \<noteq> h"
  using length_calculateHash [of dg bs] by auto

lemmas receiver_defs = onData_def handleFileStart_def handleFileChunk_def handleFileEnd_def
  notifyFileTransfer_def key_def Let_def

section \<open>Receiving a chunk\<close>

lemma handleFileChunk_mismatch:
  "calculateHash dg chunk \<noteq> chunkHash \<Longrightarrow>
   handleFileChunk dg st fileId chunk chunkHash = Inl (Exn ''Chunk integrity check failed'')"
  by (simp add: handleFileChunk_def)

lemma onData_chunk_mismatch:
  "calculateHash dg chunk \<noteq> chunkHash \<Longrightarrow>
   onData dg st p (FileChunk fileId chunk off chunkHash) =
     (st, Some (Exn ''Chunk integrity check failed''))"
  by (simp add: onData_def handleFileChunk_mismatch)

lemma onData_chunk_match:
  "calculateHash dg chunk = chunkHash \<Longrightarrow> localStorage st (key fileId) = Some t \<Longrightarrow>
   snd (onData dg st p (FileChunk fileId chunk off chunkHash)) = None \<and>
   fileData (fst (onData dg st p (FileChunk fileId chunk off chunkHash))) fileId =
     Some ((case fileData st fileId of None \<Rightarrow> [] | Some d \<Rightarrow> d) @ chunk) \<and>
   map_option (transferred \<circ> chunks)
     (localStorage (fst (onData dg st p (FileChunk fileId chunk off chunkHash))) (key fileId)) =
     Some (Suc (transferred (chunks t)))"
  by (simp add: onData_def handleFileChunk_def notifyFileTransfer_def Let_def)

text \<open>
  Claim C1, on a transfer of the three bytes 1, 2, 3 announced under the id \<open>f\<close>, whose
  chunk arrives with one byte altered and a claimed digest (\<open>x\<close>) that is not the digest
  of the bytes. \<open>handleFileChunk\<close> throws \<open>Chunk integrity check failed\<close>, in a callback that
  nobody awaits: the record keeps the status \<open>transferring\<close> and no error reason, and the
  subscriber has heard of nothing but the announcement. The transfer goes on: a chunk that
  arrives next is accepted, and a \<open>file-end\<close> that arrives next ends the transfer
  \<open>completed\<close> at 100 percent with no byte in the buffer.
\<close>

theorem C1_rejected_chunk_not_recorded:
  "\<forall>dg. (let h = calculateHash dg [1, 2, 3];
            t = newTransfer \<lparr>file_bytes = [1, 2, 3], file_name = ''a.bin'', file_type = '''',
                             file_lastModified = 0\<rparr> ''f'' h;
            st1 = deliver dg (onFileTransfer newPeerService 0) ''p'' [FileStart t];
            r = onData dg st1 ''p'' (FileChunk ''f'' [1, 2, 4] 0 ''x'');
            st3 = deliver dg (fst r) ''p'' [FileChunk ''f'' [1, 2, 3] 0 h];
            st4 = deliver dg (fst r) ''p'' [FileEnd ''f'' h]
        in calculateHash dg [1, 2, 4] \<noteq> ''x'' \<and>
           snd r = Some (Exn ''Chunk integrity check failed'') \<and>
           map_option status (localStorage (fst r) (key ''f'')) = Some Transferring \<and>
           map_option error (localStorage (fst r) (key ''f'')) = Some None \<and>
           transferCalls (fst r) = [(0, Transfer t)] \<and>
           fileData st3 ''f'' = Some [1, 2, 3] \<and>
           map_option (transferred \<circ> chunks) (localStorage st3 (key ''f'')) = Some 1 \<and>
           map_option status (localStorage st4 (key ''f'')) = Some Completed \<and>
           map_option progress (localStorage st4 (key ''f'')) = Some (Num 100) \<and>
           fileData st4 ''f'' = None)"
  by (simp add: receiver_defs newTransfer_def newPeerService_def onFileTransfer_def
        calculateHash_neq_odd)

section \<open>The end of a transfer\<close>

text \<open>
  \<open>handleFileEnd\<close> reads the stored record and the message, never \<open>fileData\<close>: when the
  digest of the message is the digest the record was announced with, the transfer is
  \<open>completed\<close> at 100 percent whatever the buffer holds.
\<close>

lemma handleFileEnd_announced_hash:
  "localStorage st (key fileId) = Some t \<Longrightarrow> hash t = fileHash \<Longrightarrow>
   localStorage (handleFileEnd st fileId fileHash) (key fileId) =
     Some (t\<lparr>status := Completed, progress := Num 100\<rparr>) \<and>
   fileData (handleFileEnd st fileId fileHash) = fileData st"
  by (simp add: handleFileEnd_def notifyFileTransfer_def Let_def)

text \<open>
  Claim C2, at a transfer whose only chunk arrives with one byte altered (4 for 3) and a
  chunk digest that fits the altered bytes. \<open>handleFileEnd\<close> compares the digest of the
  \<open>file-end\<close> message with the digest announced in \<open>file-start\<close> and never hashes the
  buffer: the transfer ends \<open>completed\<close> at 100 percent although the buffer holds other
  bytes than the file that was announced.
\<close>

theorem C2_altered_chunk_completes:
  "\<forall>dg. (let h = calculateHash dg [1, 2, 3];
            st = deliver dg newPeerService ''p''
                   [FileStart (newTransfer \<lparr>file_bytes = [1, 2, 3], file_name = ''a.bin'',
                                             file_type = '''', file_lastModified = 0\<rparr>
                                 ''f'' h),
                    FileChunk ''f'' [1, 2, 4] 0 (calculateHash dg [1, 2, 4]),
                    FileEnd ''f'' h]
        in fileData st ''f'' = Some [1, 2, 4] \<and>
           map_option status (localStorage st (key ''f'')) = Some Completed \<and>
           map_option progress (localStorage st (key ''f'')) = Some (Num 100) \<and>
           map_option error (localStorage st (key ''f'')) = Some None)"
  by (simp add: receiver_defs newTransfer_def newPeerService_def)

section \<open>Downloading and removing a received file\<close>

text \<open>
  Claim C9, as the code has it. \<open>downloadFile\<close> throws \<open>File not found\<close> exactly when no
  record is stored under the id, and \<open>File data not found\<close> exactly when a record is stored
  and no byte buffer is. It succeeds exactly when both are there, whatever the status of
  the record, and hands over the buffer under the MIME type and the name of the record.
\<close>

theorem C9_downloadFile_record_and_buffer:
  "(downloadFile st fileId = Inl (Exn ''File not found'')) =
     (localStorage st (key fileId) = None) \<and>
   (downloadFile st fileId = Inl (Exn ''File data not found'')) =
     (localStorage st (key fileId) \<noteq> None \<and> fileData st fileId = None) \<and>
   (\<exists>b. downloadFile st fileId = Inr b) =
     (localStorage st (key fileId) \<noteq> None \<and> fileData st fileId \<noteq> None) \<and>
   downloadFile
     (st\<lparr>localStorage := (localStorage st)(key fileId \<mapsto> t),
         fileData := (fileData st)(fileId \<mapsto> d)\<rparr>) fileId =
     Inr \<lparr>blob_data = d, blob_type = type' t, download = filename t\<rparr>"
  by (auto simp: downloadFile_def split: option.splits)

text \<open>
  Against claim C9 as it is written: a transfer that has received one chunk and no
  \<open>file-end\<close> is still \<open>transferring\<close>, and \<open>downloadFile\<close> succeeds for it.
\<close>

theorem C9_transferring_download_counterexample:
  "\<forall>dg. (let st = deliver dg newPeerService ''p''
                     [FileStart (newTransfer \<lparr>file_bytes = [1, 2, 3], file_name = ''a.bin'',
                                               file_type = '''', file_lastModified = 0\<rparr>
                                   ''f'' (calculateHash dg [1, 2, 3])),
                      FileChunk ''f'' [1, 2, 3] 0 (calculateHash dg [1, 2, 3])]
        in map_option status (localStorage st (key ''f'')) = Some Transferring \<and>
           downloadFile st ''f'' =
             Inr \<lparr>blob_data = [1, 2, 3], blob_type = ''application/octet-stream'',
                  download = ''a.bin''\<rparr>)"
  by (simp add: receiver_defs newTransfer_def newPeerService_def downloadFile_def)

text \<open>
  The loop over the subscribers calls them in order up to the first one that throws, and
  leaves with its exception. When every subscriber returns it is the plain notification
  that the handlers use.
\<close>

lemma forEach_split:
  "forEach beh ev ls =
     (map (\<lambda>l. (l, ev))
        (takeWhile (\<lambda>l. beh l ev = None) ls @ take 1 (dropWhile (\<lambda>l. beh l ev = None) ls)),
      (case dropWhile (\<lambda>l. beh l ev = None) ls of [] \<Rightarrow> None | l # rest \<Rightarrow> beh l ev))"
  by (induction ls) (auto split: option.splits)

lemma forEach_returning:
  "\<forall>l\<in>set ls. beh l ev = None \<Longrightarrow> forEach beh ev ls = (map (\<lambda>l. (l, ev)) ls, None)"
  by (induction ls) simp_all

lemma notifyFileTransferWith_returning:
  "\<forall>l\<in>set (fileTransferListeners st). beh l ev = None \<Longrightarrow>
   notifyFileTransferWith beh st ev = (notifyFileTransfer st ev, None)"
  by (simp add: notifyFileTransferWith_def notifyFileTransfer_def forEach_returning)

text \<open>
  Claim C10, as the code has it. \<open>removeFile\<close> does not look the id up: for every state
  and every id, known or not, it clears the record and the byte buffer stored under the
  id and then calls the file-transfer subscribers in subscription order with the object
  whose id is the given id and whose status is \<open>removed\<close>. The subscribers called are those
  up to and including the first that throws, and the exception of that one leaves
  \<open>removeFile\<close>, after the two deletions. When every subscriber returns, \<open>removeFile\<close>
  returns and every subscriber has been called.
\<close>

theorem C10_removeFile_subscribers:
  "(let ev = IdStatus fileId Removed;
        ls = fileTransferListeners st;
        r = removeFile beh st fileId
    in localStorage (fst r) = (localStorage st)(key fileId := None) \<and>
       fileData (fst r) = (fileData st)(fileId := None) \<and>
       localStorage (fst r) (key fileId) = None \<and>
       fileData (fst r) fileId = None \<and>
       event_id ev = fileId \<and> event_status ev = Removed \<and>
       transferCalls (fst r) =
         transferCalls st @
         map (\<lambda>l. (l, ev))
           (takeWhile (\<lambda>l. beh l ev = None) ls @ take 1 (dropWhile (\<lambda>l. beh l ev = None) ls)) \<and>
       snd r = (case dropWhile (\<lambda>l. beh l ev = None) ls of [] \<Rightarrow> None | l # rest \<Rightarrow> beh l ev) \<and>
       ((\<forall>l\<in>set ls. beh l ev = None) \<longrightarrow>
          snd r = None \<and> transferCalls (fst r) = transferCalls st @ map (\<lambda>l. (l, ev)) ls))"
proof -
  let ?ev = "IdStatus fileId Removed"
  let ?ls = "fileTransferListeners st"
  let ?r = "removeFile beh st fileId"
  have general:
    "localStorage (fst ?r) = (localStorage st)(key fileId := None) \<and>
     fileData (fst ?r) = (fileData st)(fileId := None) \<and>
     transferCalls (fst ?r) =
       transferCalls st @
       map (\<lambda>l. (l, ?ev))
         (takeWhile (\<lambda>l. beh l ?ev = None) ?ls @ take 1 (dropWhile (\<lambda>l. beh l ?ev = None) ?ls)) \<and>
     snd ?r = (case dropWhile (\<lambda>l. beh l ?ev = None) ?ls of [] \<Rightarrow> None | l # rest \<Rightarrow> beh l ?ev)"
    by (simp add: removeFile_def notifyFileTransferWith_def forEach_split)
  have returning:
    "(\<forall>l\<in>set ?ls. beh l ?ev = None) \<longrightarrow>
       snd ?r = None \<and> transferCalls (fst ?r) = transferCalls st @ map (\<lambda>l. (l, ?ev)) ?ls"
    by (simp add: removeFile_def notifyFileTransferWith_def forEach_returning)
  show ?thesis
    unfolding Let_def using general returning by simp
qed

text \<open>
  The theorem at two subscribers that return and an id that was never stored.
\<close>

theorem C10_removeFile_subscribers_witness:
  "(let st = onFileTransfer (onFileTransfer newPeerService 0) 1;
        ev = IdStatus ''unknown'' Removed;
        r = removeFile (\<lambda>l ev. None) st ''unknown''
    in (\<forall>l\<in>set (fileTransferListeners st). (\<lambda>l ev. None :: exn option) l ev = None) \<and>
       snd r = None \<and>
       transferCalls (fst r) = [(0, ev), (1, ev)] \<and>
       localStorage (fst r) (key ''unknown'') = None \<and>
       fileData (fst r) ''unknown'' = None)"
  using C10_removeFile_subscribers
          [of "''unknown''" "onFileTransfer (onFileTransfer newPeerService 0) 1" "\<lambda>l ev. None"]
  by (simp add: Let_def onFileTransfer_def newPeerService_def)

text \<open>
  Against claim C10 as it is written: with the subscribers 0 and 1, of which 0 throws,
  \<open>removeFile\<close> throws and subscriber 1 is never called.
\<close>

theorem C10_throwing_subscriber_counterexample:
  "(let st = onFileTransfer (onFileTransfer newPeerService 0) 1;
        beh = (\<lambda>l ev. if l = 0 then Some (Exn ''subscriber failed'') else None);
        r = removeFile beh st ''f''
    in fileTransferListeners st = [0, 1] \<and>
       snd r = Some (Exn ''subscriber failed'') \<and>
       transferCalls (fst r) = [(0, IdStatus ''f'' Removed)])"
  by (simp add: removeFile_def notifyFileTransferWith_def onFileTransfer_def newPeerService_def)

section \<open>Sending a file in chunks\<close>

text \<open>
  \<open>Math.ceil(a / b)\<close> is the rounded-up quotient: \<open>j\<close> chunks of size \<open>b\<close> fall short of
  \<open>a\<close> bytes exactly when \<open>j\<close> is below it.
\<close>

lemma ceil_div_int: "ceil_div a b = nat (- (- int a div int b))"
proof -
  have "\<lceil>(of_nat a :: rat) / of_nat b\<rceil> = \<lceil>(of_int (int a) :: rat) / of_int (int b)\<rceil>"
    by simp
  also have "\<dots> = - (- int a div int b)"
    by (rule ceiling_divide_eq_div)
  finally show ?thesis by (simp add: ceil_div_def)
qed

lemma up_div: 
  assumes b: "0 < (b::nat)"
  shows "(a + b - 1) div b = (if a mod b = 0 then a div b else a div b + 1)"
proof -
  define q r where "q = a div b" and "r = a mod b"
  have a: "a = r + q * b" by (simp add: q_def r_def)
  have r: "r < b" using b by (simp add: r_def)
  show ?thesis
  proof (cases "r = 0")
    case True
    then have "a + b - 1 = (b - 1) + q * b" using a b by simp
    then have "(a + b - 1) div b = q + (b - 1) div b" using b by (simp only: div_mult_self1) 
    then show ?thesis using True b by (simp add: q_def r_def)
  next
    case False
    then have "a + b - 1 = (r - 1) + (q + 1) * b" using a b by simp
    then have "(a + b - 1) div b = (q + 1) + (r - 1) div b" using b by (simp only: div_mult_self1)
    moreover have "(r - 1) div b = 0" using r by simp
    ultimately show ?thesis using False by (simp add: q_def r_def)
  qed
qed

lemma ceil_div_eq: "0 < b \<Longrightarrow> ceil_div a b = (a + b - 1) div b"
proof -
  assume b: "0 < b"
  have "- (- int a div int b) = (if int a mod int b = 0 then int a div int b else int a div int b + 1)"
    using b by (simp add: zdiv_zminus1_eq_if)
  also have "\<dots> = int (if a mod b = 0 then a div b else a div b + 1)"
    by (simp flip: of_nat_mod of_nat_div)
  finally have "- (- int a div int b) = int ((a + b - 1) div b)"
    using b by (simp only: up_div)
  then show ?thesis by (simp only: ceil_div_int nat_int)
qed

lemma less_ceil_div: 
  assumes b: "0 < b" shows "(j < ceil_div a b) = (j * b < a)"
proof -
  have "(j < (a + b - 1) div b) = (Suc j \<le> (a + b - 1) div b)" by auto
  also have "\<dots> = (Suc j * b \<le> a + b - 1)"
    using b by (simp only: less_eq_div_iff_mult_less_eq)
  also have "\<dots> = (j * b < a)" using b by auto
  finally show ?thesis using b by (simp only: ceil_div_eq)
qed

lemma ceil_div_1500000: "ceil_div 1500000 CHUNK_SIZE = 3"
  by (simp add: ceil_div_int CHUNK_SIZE_def)


text \<open>
  One round of \<open>reader.onload\<close> sends one \<open>file-chunk\<close> message, and does not end early
  while the record of the transfer is in \<open>localStorage\<close>.
\<close>

lemma onload_sent:
  "sent (svc (fst (onload dg clock file peerId fileId s c))) =
     sent (svc s) @ [(peerId, FileChunk fileId c (offset s) (calculateHash dg c))]"
  by (simp add: onload_def Let_def send_def notifyFileTransfer_def split: option.splits)

lemma onload_stored:
  "localStorage (svc s) (key fileId) \<noteq> None \<Longrightarrow>
   snd (onload dg clock file peerId fileId s c) = None \<and>
   localStorage (svc (fst (onload dg clock file peerId fileId s c))) (key fileId) \<noteq> None"
  by (auto simp add: onload_def Let_def send_def notifyFileTransfer_def split: option.splits)

text \<open>
  The loop, from an offset on a chunk boundary (or the end of the file): it sends the
  chunks from that one on, then \<open>file-end\<close>, and returns.
\<close>

lemma readNextChunk_sent:
  assumes "localStorage (svc s) (key fileId) \<noteq> None"
    and "offset s = min (j * CHUNK_SIZE) (length (file_bytes fl))"
  shows "snd (readNextChunk dg clock fl peerId fileId fileHash s) = None \<and>
         sent (svc (fst (readNextChunk dg clock fl peerId fileId fileHash s))) =
           sent (svc s) @
           map (\<lambda>k. (peerId, chunkMsg dg (file_bytes fl) fileId k))
             [j..<ceil_div (length (file_bytes fl)) CHUNK_SIZE] @
           [(peerId, FileEnd fileId fileHash)]"
  using assms
proof (induction dg clock fl peerId fileId fileHash s arbitrary: j rule: readNextChunk.induct)
  case (1 dg clock fl peerId fileId fileHash s)
  let ?bs = "file_bytes fl"
  let ?n = "ceil_div (length ?bs) CHUNK_SIZE"
  show ?case
  proof (cases "length ?bs \<le> offset s")
    case True
    then have "length ?bs \<le> j * CHUNK_SIZE" using "1.prems"(2) by simp
    then have "\<not> j < ?n" by (simp add: less_ceil_div [OF CHUNK_SIZE_pos])
    then show ?thesis using True by (subst (1 2) readNextChunk.simps) (simp add: send_def)
  next
    case False
    let ?c = "slice' ?bs (offset s) (offset s + CHUNK_SIZE)"
    let ?r = "onload dg clock fl peerId fileId s ?c"
    have off: "offset s = j * CHUNK_SIZE" and lt: "j * CHUNK_SIZE < length ?bs"
      using False "1.prems"(2) by auto
    have jn: "j < ?n" using lt by (simp add: less_ceil_div [OF CHUNK_SIZE_pos])
    have c: "slice' ?bs (j * CHUNK_SIZE) (j * CHUNK_SIZE + CHUNK_SIZE) = chunkAt ?bs j"
      by (simp add: slice'_def chunkAt_def)
    have ok: "snd ?r = None" and st: "localStorage (svc (fst ?r)) (key fileId) \<noteq> None"
      using onload_stored [OF "1.prems"(1)] by auto
    have off': "offset (fst ?r) = min (Suc j * CHUNK_SIZE) (length ?bs)"
      using lt by (auto simp add: onload_offset slice'_def off min_def)
    have IH: "snd (readNextChunk dg clock fl peerId fileId fileHash (fst ?r)) = None \<and>
         sent (svc (fst (readNextChunk dg clock fl peerId fileId fileHash (fst ?r)))) =
           sent (svc (fst ?r)) @
           map (\<lambda>k. (peerId, chunkMsg dg ?bs fileId k)) [Suc j..<?n] @
           [(peerId, FileEnd fileId fileHash)]"
      using "1.IH" [OF False refl refl ok st off'] .
    have unfold: "readNextChunk dg clock fl peerId fileId fileHash s =
                  readNextChunk dg clock fl peerId fileId fileHash (fst ?r)"
      using False ok by (subst readNextChunk.simps) (simp add: Let_def)
    show ?thesis
      using IH by (simp add: unfold onload_sent c off chunkMsg_def upt_conv_Cons [OF jn])
  qed
qed

lemma chunk_offsets_append: "chunk_offsets (xs @ ys) = chunk_offsets xs @ chunk_offsets ys"
  by (induction xs rule: chunk_offsets.induct) simp_all

lemma chunk_payloads_append: "chunk_payloads (xs @ ys) = chunk_payloads xs @ chunk_payloads ys"
  by (induction xs rule: chunk_payloads.induct) simp_all

lemma chunk_offsets_chunkMsg:
  "chunk_offsets (map (chunkMsg dg bs fileId) ks) = map (\<lambda>k. k * CHUNK_SIZE) ks"
  by (induction ks) (simp_all add: chunkMsg_def)

lemma chunk_payloads_chunkMsg:
  "chunk_payloads (map (chunkMsg dg bs fileId) ks) = map (chunkAt bs) ks"
  by (induction ks) (simp_all add: chunkMsg_def)

lemma concat_chunkAt: "concat (map (chunkAt bs) [0..<k]) = take (k * CHUNK_SIZE) bs"
proof (induction k)
  case 0
  show ?case by simp
next
  case (Suc k)
  have "take (k * CHUNK_SIZE + CHUNK_SIZE) bs =
        take (k * CHUNK_SIZE) bs @ take CHUNK_SIZE (drop (k * CHUNK_SIZE) bs)"
    by (rule take_add)
  then show ?case using Suc by (simp add: chunkAt_def add.commute)
qed

lemma ceil_div_covers: "length bs \<le> ceil_div (length bs) CHUNK_SIZE * CHUNK_SIZE"
  using less_ceil_div [OF CHUNK_SIZE_pos, of "ceil_div (length bs) CHUNK_SIZE" "length bs"]
  by simp

lemma concat_all_chunks:
  "concat (map (chunkAt bs) [0..<ceil_div (length bs) CHUNK_SIZE]) = bs"
  using ceil_div_covers [of bs] by (simp add: concat_chunkAt)

lemma offsets_increasing: "sorted_wrt (<) (map (\<lambda>k. k * CHUNK_SIZE) [0..<n])"
proof -
  have "sorted_wrt (\<lambda>x y. x * CHUNK_SIZE < y * CHUNK_SIZE) [0..<n]"
    by (rule sorted_wrt_mono_rel [OF _ sorted_wrt_upt]) (simp add: CHUNK_SIZE_pos)
  then show ?thesis by (simp add: sorted_wrt_map)
qed

lemma length_chunkAt: "length (chunkAt bs k) \<le> CHUNK_SIZE"
  by (simp add: chunkAt_def)

lemma sendFile_sent:
  assumes conn: "map_of (connections st) peerId = Some conn"
  shows "snd (sendFile dg clock st fl peerId fileId) = None \<and>
         sent (fst (sendFile dg clock st fl peerId fileId)) =
           sent st @
           (peerId, FileStart (newTransfer fl fileId (calculateHash dg (file_bytes fl)))) #
           map (\<lambda>k. (peerId, chunkMsg dg (file_bytes fl) fileId k))
             [0..<ceil_div (length (file_bytes fl)) CHUNK_SIZE] @
           [(peerId, FileEnd fileId (calculateHash dg (file_bytes fl)))]"
proof -
  let ?h = "calculateHash dg (file_bytes fl)"
  let ?t = "newTransfer fl fileId ?h"
  let ?s0 = "\<lparr>offset = 0, lastUpdate = clock 0, bytesTransferred = 0, readings = 1,
              svc = send (st\<lparr>localStorage := (localStorage st)(key fileId \<mapsto> ?t)\<rparr>)
                      peerId (FileStart ?t)\<rparr>"
  have stored: "localStorage (svc ?s0) (key fileId) \<noteq> None" by (simp add: send_def)
  have aligned: "offset ?s0 = min (0 * CHUNK_SIZE) (length (file_bytes fl))" by simp
  have eq: "sendFile dg clock st fl peerId fileId =
        (svc (fst (readNextChunk dg clock fl peerId fileId ?h ?s0)),
         snd (readNextChunk dg clock fl peerId fileId ?h ?s0))"
    using conn by (simp add: sendFile_def Let_def)
  show ?thesis
    using readNextChunk_sent [OF stored aligned, of dg clock peerId ?h]
    by (simp add: eq send_def)
qed

text \<open>
  Claim C3. With a connection registered for the peer, \<open>sendFile\<close> returns and sends
  \<open>file-start\<close>, then one \<open>file-chunk\<close> message for each \<open>k\<close> below
  \<open>ceil(size / CHUNK_SIZE)\<close>, at the offset \<open>k * CHUNK_SIZE\<close>, then \<open>file-end\<close>. The offsets
  increase strictly, the payloads put together are the file (so their sizes add up to its
  size), none is longer than \<open>CHUNK_SIZE\<close>, and there are \<open>ceil(size / CHUNK_SIZE)\<close> of them.
  A file of 1,500,000 bytes gives the three offsets 0, 524288 and 1048576, and \<open>file-end\<close>
  after the third chunk.
\<close>

theorem C3_sender_chunking:
  assumes conn: "map_of (connections st) peerId = Some conn"
  shows "(let bs = file_bytes fl;
              n = ceil_div (length bs) CHUNK_SIZE;
              h = calculateHash dg bs;
              r = sendFile dg clock st fl peerId fileId;
              msgs = map snd (drop (length (sent st)) (sent (fst r)))
          in snd r = None \<and>
             msgs = FileStart (newTransfer fl fileId h) #
                      map (chunkMsg dg bs fileId) [0..<n] @ [FileEnd fileId h] \<and>
             chunk_offsets msgs = map (\<lambda>k. k * CHUNK_SIZE) [0..<n] \<and>
             sorted_wrt (<) (chunk_offsets msgs) \<and>
             concat (chunk_payloads msgs) = bs \<and>
             sum_list (map length (chunk_payloads msgs)) = length bs \<and>
             list_all (\<lambda>c. length c \<le> CHUNK_SIZE) (chunk_payloads msgs) \<and>
             length (chunk_payloads msgs) = n \<and>
             (length bs = 1500000 \<longrightarrow>
                chunk_offsets msgs = [0, 524288, 1048576] \<and>
                msgs = [FileStart (newTransfer fl fileId h), chunkMsg dg bs fileId 0,
                        chunkMsg dg bs fileId 1, chunkMsg dg bs fileId 2, FileEnd fileId h]))"
proof -
  let ?bs = "file_bytes fl"
  let ?n = "ceil_div (length ?bs) CHUNK_SIZE"
  let ?h = "calculateHash dg ?bs"
  let ?r = "sendFile dg clock st fl peerId fileId"
  let ?msgs = "map snd (drop (length (sent st)) (sent (fst ?r)))"
  have ok: "snd ?r = None" using sendFile_sent [OF conn] by simp
  have msgs: "?msgs = FileStart (newTransfer fl fileId ?h) #
                      map (chunkMsg dg ?bs fileId) [0..<?n] @ [FileEnd fileId ?h]"
    using sendFile_sent [OF conn, of dg clock fl fileId] by (simp add: comp_def)
  have offs: "chunk_offsets ?msgs = map (\<lambda>k. k * CHUNK_SIZE) [0..<?n]"
    by (simp add: msgs chunk_offsets_append chunk_offsets_chunkMsg)
  have pays: "chunk_payloads ?msgs = map (chunkAt ?bs) [0..<?n]"
    by (simp add: msgs chunk_payloads_append chunk_payloads_chunkMsg)
  have incr: "sorted_wrt (<) (chunk_offsets ?msgs)"
    by (simp only: offs offsets_increasing)
  have whole: "concat (chunk_payloads ?msgs) = ?bs"
    by (simp only: pays concat_all_chunks)
  have total: "sum_list (map length (chunk_payloads ?msgs)) = length ?bs"
    using whole by (metis length_concat)
  have bound: "list_all (\<lambda>c. length c \<le> CHUNK_SIZE) (chunk_payloads ?msgs)"
    by (simp add: pays list_all_iff length_chunkAt)
  have count: "length (chunk_payloads ?msgs) = ?n"
    by (simp add: pays)
  have three: "length ?bs = 1500000 \<longrightarrow>
                chunk_offsets ?msgs = [0, 524288, 1048576] \<and>
                ?msgs = [FileStart (newTransfer fl fileId ?h), chunkMsg dg ?bs fileId 0,
                        chunkMsg dg ?bs fileId 1, chunkMsg dg ?bs fileId 2, FileEnd fileId ?h]"
  proof
    assume len: "length ?bs = 1500000"
    have n3: "?n = 3" by (simp only: len ceil_div_1500000)
    have upt3: "[0..<3] = [0, 1, 2::nat]" by (simp add: upt_rec)
    have "chunk_offsets ?msgs = [0, 524288, 1048576]"
      by (simp only: offs n3 upt3) (simp add: CHUNK_SIZE_def)
    moreover
    have "?msgs = [FileStart (newTransfer fl fileId ?h), chunkMsg dg ?bs fileId 0,
                   chunkMsg dg ?bs fileId 1, chunkMsg dg ?bs fileId 2, FileEnd fileId ?h]"
      by (simp only: msgs n3 upt3) simp
    ultimately
    show "chunk_offsets ?msgs = [0, 524288, 1048576] \<and>
                ?msgs = [FileStart (newTransfer fl fileId ?h), chunkMsg dg ?bs fileId 0,
                        chunkMsg dg ?bs fileId 1, chunkMsg dg ?bs fileId 2, FileEnd fileId ?h]"
      by (rule conjI)
  qed
  show ?thesis
    unfolding Let_def
    using ok msgs offs incr whole total bound count three by blast
qed

text \<open>
  The theorem at a file of 1,500,000 zero bytes, sent to the peer \<open>p\<close> of an open
  connection, for every digest primitive and every clock.
\<close>

theorem C3_sender_chunking_witness:
  "\<forall>dg clock.
     (let st = fst (connect (newPeerService\<lparr>peer := Some ''me''\<rparr>) ''p'' Opened);
          fl = \<lparr>file_bytes = replicate 1500000 0, file_name = ''big.bin'', file_type = '''',
                file_lastModified = 0\<rparr>;
          msgs = map snd (drop (length (sent st)) (sent (fst (sendFile dg clock st fl ''p'' ''f''))))
      in map_of (connections st) ''p'' = Some \<lparr>conn_peer = ''p'', conn_open = True\<rparr> \<and>
         length (file_bytes fl) = 1500000 \<and>
         chunk_offsets msgs = [0, 524288, 1048576] \<and>
         length (chunk_payloads msgs) = 3 \<and>
         sum_list (map length (chunk_payloads msgs)) = 1500000 \<and>
         last msgs = FileEnd ''f'' (calculateHash dg (file_bytes fl)))"
proof (intro allI)
  fix dg :: digest and clock :: "nat \<Rightarrow> int"
  let ?st = "fst (connect (newPeerService\<lparr>peer := Some ''me''\<rparr>) ''p'' Opened)"
  let ?fl = "\<lparr>file_bytes = replicate 1500000 (0::byte), file_name = ''big.bin'', file_type = '''',
                file_lastModified = 0\<rparr>"
  let ?msgs = "map snd (drop (length (sent ?st)) (sent (fst (sendFile dg clock ?st ?fl ''p'' ''f''))))"
  have conn: "map_of (connections ?st) ''p'' = Some \<lparr>conn_peer = ''p'', conn_open = True\<rparr>"
    by (simp add: connect_def handleConnection_def updatePeersList_def notifyConnectionStatus_def
          newPeerService_def Let_def)
  have len: "length (file_bytes ?fl) = 1500000" by simp
  note main = C3_sender_chunking [OF conn, of ?fl dg clock "''f''", unfolded Let_def]
  have n3: "ceil_div (length (file_bytes ?fl)) CHUNK_SIZE = 3"
    by (simp only: len ceil_div_1500000)
  have offs: "chunk_offsets ?msgs = [0, 524288, 1048576]"
    using main len by blast
  have "length (chunk_payloads ?msgs) = ceil_div (length (file_bytes ?fl)) CHUNK_SIZE"
    using main by blast
  then have cnt: "length (chunk_payloads ?msgs) = 3"
    by (simp only: n3)
  have "sum_list (map length (chunk_payloads ?msgs)) = length (file_bytes ?fl)"
    using main by blast
  then have total: "sum_list (map length (chunk_payloads ?msgs)) = 1500000"
    by (simp only: len)
  have "?msgs = [FileStart (newTransfer ?fl ''f'' (calculateHash dg (file_bytes ?fl))),
                 chunkMsg dg (file_bytes ?fl) ''f'' 0, chunkMsg dg (file_bytes ?fl) ''f'' 1,
                 chunkMsg dg (file_bytes ?fl) ''f'' 2,
                 FileEnd ''f'' (calculateHash dg (file_bytes ?fl))]"
    using main len by blast
  moreover have "last [a, b, c, d, e] = e" for a b c d e :: message
    by simp
  ultimately have lst: "last ?msgs = FileEnd ''f'' (calculateHash dg (file_bytes ?fl))"
    by (simp only:)
  show "let st = ?st; fl = ?fl;
            msgs = map snd (drop (length (sent st)) (sent (fst (sendFile dg clock st fl ''p'' ''f''))))
      in map_of (connections st) ''p'' = Some \<lparr>conn_peer = ''p'', conn_open = True\<rparr> \<and>
         length (file_bytes fl) = 1500000 \<and>
         chunk_offsets msgs = [0, 524288, 1048576] \<and>
         length (chunk_payloads msgs) = 3 \<and>
         sum_list (map length (chunk_payloads msgs)) = 1500000 \<and>
         last msgs = FileEnd ''f'' (calculateHash dg (file_bytes fl))"
    unfolding Let_def
    using conn len offs cnt total lst by blast
qed


section \<open>Progress reports\<close>










lemma onData_resume:
  "fst (onData dg st p (FileChunk fileId chunk off h)) = resume dg st (fileId, chunk, h)"
  by (simp add: resume_def onData_def split: sum.splits)

lemma run_eager: "run dg p (st, []) (eager ms) = (deliver dg st p ms, [])"
proof (induction ms arbitrary: st)
  case Nil
  show ?case by simp
next
  case (Cons m ms)
  show ?case
    by (cases m) (simp_all add: Cons.IH onData_resume)
qed



lemma key_eq: "key a = key b \<longleftrightarrow> a = b"
  by (simp add: key_def)







text \<open>What does not carry the id of a transfer leaves the transfer alone.\<close>

text \<open>
  Every record is kept under the key of its own id in an empty store, and the receiver
  keeps it so.
\<close>

lemma ownKeys_empty: "localStorage st = Map.empty \<Longrightarrow> ownKeys st"
  by (simp add: ownKeys_def)

lemma resume_ownKeys: "ownKeys st \<Longrightarrow> ownKeys (resume dg st x)"
proof -
  assume own: "ownKeys st"
  obtain i c h where x: "x = (i, c, h)" by (cases x) auto
  show ?thesis
  proof (cases "localStorage st (key i)")
    case None
    then show ?thesis using own by (simp add: x resume_def handleFileChunk_def)
  next
    case (Some t)
    then have "id' t = i" using own by (simp add: ownKeys_def)
    then show ?thesis
      using own Some
      by (simp add: x resume_def handleFileChunk_def notifyFileTransfer_def Let_def ownKeys_def
            key_eq)
  qed
qed

lemma onData_ownKeys: "ownKeys st \<Longrightarrow> ownKeys (fst (onData dg st p m))"
proof -
  assume own: "ownKeys st"
  show ?thesis
  proof (cases m)
    case (FileStart t)
    then show ?thesis
      using own by (simp add: onData_def handleFileStart_def notifyFileTransfer_def ownKeys_def key_eq)
  next
    case (FileChunk i c off h)
    then show ?thesis
      using resume_ownKeys [OF own, of dg "(i, c, h)"] by (simp add: onData_resume)
  next
    case (FileEnd i h)
    show ?thesis
    proof (cases "localStorage st (key i)")
      case None
      then show ?thesis using own by (simp add: FileEnd onData_def handleFileEnd_def)
    next
      case (Some t)
      then have "id' t = i" using own by (simp add: ownKeys_def)
      then show ?thesis
        using own Some
        by (simp add: FileEnd onData_def handleFileEnd_def notifyFileTransfer_def Let_def
              ownKeys_def key_eq)
    qed
  qed (use own in \<open>simp_all add: onData_def send_def closeConn_def notifyConnectionStatus_def
         ownKeys_def\<close>)
qed

text \<open>
  Every record is kept under the key of its own id in an empty store, and the receiver
  keeps it so.
\<close>

lemma run_ownKeys: "ownKeys st \<Longrightarrow> ownKeys (fst (run dg p (st, pq) ss))"
proof (induction ss arbitrary: st pq)
  case Nil
  then show ?case by simp
next
  case (Cons s ss)
  obtain st' pq' where r: "react dg p (st, pq) s = (st', pq')" by (cases "react dg p (st, pq) s")
  have "ownKeys st'"
  proof (cases s)
    case (Data m)
    show ?thesis
    proof (cases m)
      case (FileChunk i c off h)
      then show ?thesis using r Cons.prems by (simp add: Data)
    qed (use r Cons.prems onData_ownKeys [of st dg p m] in \<open>auto simp add: Data\<close>)
  next
    case (Resolved k)
    then show ?thesis
      using r Cons.prems resume_ownKeys [of st dg "pq ! k"] by (auto split: if_splits)
  qed
  then show ?case using Cons.IH [of st' pq'] by (simp add: r)
qed






text \<open>
  While the chunks of a transfer that are counted, parked and still to arrive fit under
  its \<open>chunks.total\<close>, every chunk handler of the transfer that finishes reports a share
  that is not below the one before and not above 100, in whatever order the chunks arrive
  and the digests complete, and whatever else arrives in between; a rejected chunk reports
  nothing.
\<close>


text \<open>
  Once no chunk handler of a transfer is parked, what arrives without its id and what
  finishes reports nothing with its id.
\<close>








section \<open>Reconnection with backoff\<close>

lemmas reconnect_defs = tryReconnect_def connect_def handleConnection_def updatePeersList_def
  notifyConnectionStatus_def fireReconnectTimer_def MAX_RECONNECT_ATTEMPTS_def Let_def

text \<open>
  One call of \<open>tryReconnect\<close> for a peer with no reconnection in progress: an attempt
  that fails, below the cap, and the call at the cap.
\<close>

lemma tryReconnect_failed:
  assumes idle: "\<not> isConnecting (stateOf st p)"
    and room: "attemptsOf st p < MAX_RECONNECT_ATTEMPTS"
  shows "\<not> isConnecting (stateOf (tryReconnect st p (Failed msg)) p) \<and>
         attemptsOf (tryReconnect st p (Failed msg)) p = Suc (attemptsOf st p) \<and>
         reconnectTimeouts (tryReconnect st p (Failed msg)) p =
           Some (min (1000 * 2 ^ attemptsOf st p) 30000) \<and>
         armed (tryReconnect st p (Failed msg)) =
           armed st @ [(p, min (1000 * 2 ^ attemptsOf st p) 30000)] \<and>
         dialed (tryReconnect st p (Failed msg)) =
           dialed st @ (if peer st = None then [] else [p]) \<and>
         peer (tryReconnect st p (Failed msg)) = peer st \<and>
         connectionListeners (tryReconnect st p (Failed msg)) = connectionListeners st \<and>
         connectionCalls (tryReconnect st p (Failed msg)) = connectionCalls st"
  using assms
  by (cases "connectionStates st p"; cases "reconnectAttempts st p";
      cases "reconnectTimeouts st p"; cases "peer st";
      simp add: tryReconnect_def connect_def stateOf_def attemptsOf_def
        MAX_RECONNECT_ATTEMPTS_def Let_def)

lemma tryReconnect_exhausted:
  assumes idle: "\<not> isConnecting (stateOf st p)"
    and full: "MAX_RECONNECT_ATTEMPTS \<le> attemptsOf st p"
  shows "\<not> isConnecting (stateOf (tryReconnect st p d) p) \<and>
         attemptsOf (tryReconnect st p d) p = attemptsOf st p \<and>
         reconnectTimeouts (tryReconnect st p d) p = None \<and>
         armed (tryReconnect st p d) = armed st \<and>
         dialed (tryReconnect st p d) = dialed st \<and>
         peer (tryReconnect st p d) = peer st \<and>
         connectionListeners (tryReconnect st p d) = connectionListeners st \<and>
         connectionCalls (tryReconnect st p d) =
           connectionCalls st @ map (maxReached p) (connectionListeners st)"
  using assms
  by (cases "connectionStates st p"; cases "reconnectAttempts st p";
      cases "reconnectTimeouts st p";
      simp add: tryReconnect_def stateOf_def attemptsOf_def notifyConnectionStatus_def
        maxReached_def MAX_RECONNECT_ATTEMPTS_def Let_def)

lemma connect_Opened:
  assumes init: "peer st \<noteq> None"
  shows "snd (connect st p Opened) = None \<and>
         map_of (connections (fst (connect st p Opened))) p =
           Some \<lparr>conn_peer = p, conn_open = True\<rparr> \<and>
         stateOf (fst (connect st p Opened)) p = stateOf st p \<and>
         attemptsOf (fst (connect st p Opened)) p = attemptsOf st p \<and>
         reconnectAttempts (fst (connect st p Opened)) = reconnectAttempts st \<and>
         dialed (fst (connect st p Opened)) = dialed st @ [p] \<and>
         peer (fst (connect st p Opened)) = peer st \<and>
         connectionListeners (fst (connect st p Opened)) = connectionListeners st \<and>
         connectionCalls (fst (connect st p Opened)) =
           connectionCalls st @
           map (\<lambda>l. (l, p, ''Unknown'', True, None)) (connectionListeners st)"
  using init
  by (simp add: connect_def handleConnection_def updatePeersList_def notifyConnectionStatus_def
        stateOf_def attemptsOf_def update_conv' Let_def)

lemma fireAll_timer:
  "reconnectTimeouts st p = Some delay \<Longrightarrow>
   fireAll st p (d # ds) = fireAll (tryReconnect st p d) p ds"
  by (simp add: fireReconnectTimer_def)

lemma fireAll_no_timer: "reconnectTimeouts st p = None \<Longrightarrow> fireAll st p ds = st"
  by (cases ds) (simp_all add: fireReconnectTimer_def)

lemma five_failures:
  assumes idle: "\<not> isConnecting (stateOf st p)" and fresh: "attemptsOf st p = 0"
  shows "\<not> isConnecting
            (stateOf (fireAll (tryReconnect st p (Failed m1)) p
                        [Failed m2, Failed m3, Failed m4, Failed m5]) p) \<and>
         attemptsOf (fireAll (tryReconnect st p (Failed m1)) p
                       [Failed m2, Failed m3, Failed m4, Failed m5]) p = 5 \<and>
         reconnectTimeouts (fireAll (tryReconnect st p (Failed m1)) p
                       [Failed m2, Failed m3, Failed m4, Failed m5]) p = Some 16000 \<and>
         armed (fireAll (tryReconnect st p (Failed m1)) p
                       [Failed m2, Failed m3, Failed m4, Failed m5]) =
           armed st @ [(p, 1000), (p, 2000), (p, 4000), (p, 8000), (p, 16000)] \<and>
         dialed (fireAll (tryReconnect st p (Failed m1)) p
                       [Failed m2, Failed m3, Failed m4, Failed m5]) =
           dialed st @ (if peer st = None then [] else [p, p, p, p, p]) \<and>
         peer (fireAll (tryReconnect st p (Failed m1)) p
                       [Failed m2, Failed m3, Failed m4, Failed m5]) = peer st \<and>
         connectionListeners (fireAll (tryReconnect st p (Failed m1)) p
                       [Failed m2, Failed m3, Failed m4, Failed m5]) = connectionListeners st \<and>
         connectionCalls (fireAll (tryReconnect st p (Failed m1)) p
                       [Failed m2, Failed m3, Failed m4, Failed m5]) = connectionCalls st"
proof -
  let ?s1 = "tryReconnect st p (Failed m1)"
  let ?s2 = "tryReconnect ?s1 p (Failed m2)"
  let ?s3 = "tryReconnect ?s2 p (Failed m3)"
  let ?s4 = "tryReconnect ?s3 p (Failed m4)"
  let ?s5 = "tryReconnect ?s4 p (Failed m5)"
  have r0: "attemptsOf st p < MAX_RECONNECT_ATTEMPTS"
    using fresh by (simp add: MAX_RECONNECT_ATTEMPTS_def)
  note f1 = tryReconnect_failed [OF idle r0, of m1, unfolded fresh]
  have i1: "\<not> isConnecting (stateOf ?s1 p)" and a1: "attemptsOf ?s1 p = 1"
    using f1 by simp_all
  have r1: "attemptsOf ?s1 p < MAX_RECONNECT_ATTEMPTS"
    using a1 by (simp add: MAX_RECONNECT_ATTEMPTS_def)
  note f2 = tryReconnect_failed [OF i1 r1, of m2, unfolded a1]
  have i2: "\<not> isConnecting (stateOf ?s2 p)" and a2: "attemptsOf ?s2 p = 2"
    using f2 by simp_all
  have r2: "attemptsOf ?s2 p < MAX_RECONNECT_ATTEMPTS"
    using a2 by (simp add: MAX_RECONNECT_ATTEMPTS_def)
  note f3 = tryReconnect_failed [OF i2 r2, of m3, unfolded a2]
  have i3: "\<not> isConnecting (stateOf ?s3 p)" and a3: "attemptsOf ?s3 p = 3"
    using f3 by simp_all
  have r3: "attemptsOf ?s3 p < MAX_RECONNECT_ATTEMPTS"
    using a3 by (simp add: MAX_RECONNECT_ATTEMPTS_def)
  note f4 = tryReconnect_failed [OF i3 r3, of m4, unfolded a3]
  have i4: "\<not> isConnecting (stateOf ?s4 p)" and a4: "attemptsOf ?s4 p = 4"
    using f4 by simp_all
  have r4: "attemptsOf ?s4 p < MAX_RECONNECT_ATTEMPTS"
    using a4 by (simp add: MAX_RECONNECT_ATTEMPTS_def)
  note f5 = tryReconnect_failed [OF i4 r4, of m5, unfolded a4]
  have t1: "reconnectTimeouts ?s1 p = Some 1000" using f1 by simp
  have t2: "reconnectTimeouts ?s2 p = Some 2000" using f2 by simp
  have t3: "reconnectTimeouts ?s3 p = Some 4000" using f3 by simp
  have t4: "reconnectTimeouts ?s4 p = Some 8000" using f4 by simp
  have "fireAll ?s1 p [Failed m2, Failed m3, Failed m4, Failed m5] =
        fireAll ?s2 p [Failed m3, Failed m4, Failed m5]"
    by (rule fireAll_timer [OF t1])
  also have "\<dots> = fireAll ?s3 p [Failed m4, Failed m5]"
    by (rule fireAll_timer [OF t2])
  also have "\<dots> = fireAll ?s4 p [Failed m5]"
    by (rule fireAll_timer [OF t3])
  also have "\<dots> = fireAll ?s5 p []"
    by (rule fireAll_timer [OF t4])
  finally have run: "fireAll ?s1 p [Failed m2, Failed m3, Failed m4, Failed m5] = ?s5"
    by simp
  have "armed ?s5 = armed st @ [(p, 1000), (p, 2000), (p, 4000), (p, 8000), (p, 16000)]"
    using f1 f2 f3 f4 f5 by simp
  moreover have "dialed ?s5 = dialed st @ (if peer st = None then [] else [p, p, p, p, p])"
    using f1 f2 f3 f4 f5 by simp
  moreover have "\<not> isConnecting (stateOf ?s5 p)" "attemptsOf ?s5 p = 5"
    "reconnectTimeouts ?s5 p = Some 16000" "peer ?s5 = peer st"
    "connectionListeners ?s5 = connectionListeners st" "connectionCalls ?s5 = connectionCalls st"
    using f1 f2 f3 f4 f5 by simp_all
  ultimately show ?thesis by (simp only: run) simp
qed

text \<open>
  Claim C4, as the code has it. \<open>tryReconnect\<close> makes attempt \<open>n\<close> in the call itself, with
  no delay of its own before the dial (when the local peer exists; without it the attempt
  fails before dialling), and arms the timer after the attempt has failed: the delay
  after failed attempt \<open>n\<close> is \<open>min (1000 * 2 ^ (n - 1)) 30000\<close> milliseconds. Starting from
  no recorded attempt, the delays armed after the failed attempts 1 to 5 are 1000, 2000,
  4000, 8000 and 16000.
\<close>

theorem C4_backoff_after_failed_attempt:
  assumes idle: "\<not> isConnecting (stateOf st p)"
    and room: "attemptsOf st p < MAX_RECONNECT_ATTEMPTS"
  shows "attemptsOf (tryReconnect st p (Failed msg)) p = Suc (attemptsOf st p) \<and>
         dialed (tryReconnect st p (Failed msg)) =
           dialed st @ (if peer st = None then [] else [p]) \<and>
         armed (tryReconnect st p (Failed msg)) =
           armed st @ [(p, min (1000 * 2 ^ (Suc (attemptsOf st p) - 1)) 30000)] \<and>
         reconnectTimeouts (tryReconnect st p (Failed msg)) p =
           Some (min (1000 * 2 ^ (Suc (attemptsOf st p) - 1)) 30000) \<and>
         (attemptsOf st p = 0 \<longrightarrow>
            armed (fireAll (tryReconnect st p (Failed msg)) p
                     [Failed m2, Failed m3, Failed m4, Failed m5]) =
              armed st @ [(p, 1000), (p, 2000), (p, 4000), (p, 8000), (p, 16000)])"
  using tryReconnect_failed [OF idle room, of msg] five_failures [OF idle, of msg m2 m3 m4 m5]
  by simp

text \<open>
  The theorem at a service whose local peer is \<open>me\<close> and that has never tried to
  reconnect to \<open>p\<close>.
\<close>

theorem C4_backoff_after_failed_attempt_witness:
  "\<not> isConnecting (stateOf (newPeerService\<lparr>peer := Some ''me''\<rparr>) ''p'') \<and>
   attemptsOf (newPeerService\<lparr>peer := Some ''me''\<rparr>) ''p'' < MAX_RECONNECT_ATTEMPTS \<and>
   attemptsOf (newPeerService\<lparr>peer := Some ''me''\<rparr>) ''p'' = 0 \<and>
   dialed (tryReconnect (newPeerService\<lparr>peer := Some ''me''\<rparr>) ''p'' (Failed ''down'')) = [''p''] \<and>
   armed (tryReconnect (newPeerService\<lparr>peer := Some ''me''\<rparr>) ''p'' (Failed ''down'')) =
     [(''p'', 1000)] \<and>
   armed (fireAll (tryReconnect (newPeerService\<lparr>peer := Some ''me''\<rparr>) ''p'' (Failed ''down'')) ''p''
            [Failed ''down'', Failed ''down'', Failed ''down'', Failed ''down'']) =
     [(''p'', 1000), (''p'', 2000), (''p'', 4000), (''p'', 8000), (''p'', 16000)]"
proof -
  let ?st = "newPeerService\<lparr>peer := Some ''me''\<rparr>"
  have idle: "\<not> isConnecting (stateOf ?st ''p'')"
    by (simp add: stateOf_def newPeerService_def)
  have fresh: "attemptsOf ?st ''p'' = 0"
    by (simp add: attemptsOf_def newPeerService_def)
  have room: "attemptsOf ?st ''p'' < MAX_RECONNECT_ATTEMPTS"
    by (simp add: fresh MAX_RECONNECT_ATTEMPTS_def)
  have logs: "armed ?st = []" "dialed ?st = []" "peer ?st = Some ''me''"
    by (simp_all add: newPeerService_def)
  show ?thesis
    using C4_backoff_after_failed_attempt
            [OF idle room, of "''down''" "''down''" "''down''" "''down''" "''down''"]
      idle room fresh logs
    by simp
qed

text \<open>
  Against claim C4 as it is written: attempt 1 is dialled with no timer armed before it,
  and the one timer armed before attempt 2 has the delay 1000, where the claim's formula
  gives 2000 for \<open>n = 2\<close>.
\<close>

theorem C4_delay_before_attempt_counterexample:
  "(let st0 = newPeerService\<lparr>peer := Some ''me''\<rparr>;
        st1 = tryReconnect st0 ''p'' (Failed ''down'');
        st2 = fireAll st1 ''p'' [Failed ''down'']
    in reconnectTimeouts st0 ''p'' = None \<and> armed st0 = [] \<and>
       dialed st1 = [''p''] \<and> reconnectAttempts st1 ''p'' = Some 1 \<and>
       armed st1 = [(''p'', 1000)] \<and>
       dialed st2 = [''p'', ''p''] \<and> reconnectAttempts st2 ''p'' = Some 2 \<and>
       armed st2 = [(''p'', 1000), (''p'', 2000)] \<and>
       (1000::nat) \<noteq> min (1000 * 2 ^ (2 - 1)) 30000)"
  by (simp add: reconnect_defs newPeerService_def)

text \<open>
  Claim C7, on the run it describes. After five failed attempts the sixth firing of the
  timer dials nothing, tells the subscribers \<open>Max reconnection attempts reached\<close> and
  arms no further timer. A manual \<open>connect\<close> that then succeeds registers the connection
  and leaves the attempt counter at 5: only the success branch of \<open>tryReconnect\<close> deletes
  it. So the next loss of that connection is answered by \<open>Max reconnection attempts
  reached\<close> at once, without any attempt.
\<close>

theorem C7_counter_survives_manual_connect:
  assumes idle: "\<not> isConnecting (stateOf st p)" and fresh: "attemptsOf st p = 0"
    and init: "peer st \<noteq> None"
  shows "(let s5 = fireAll (tryReconnect st p (Failed m1)) p
                     [Failed m2, Failed m3, Failed m4, Failed m5];
              s6 = fireAll s5 p [d6];
              s7 = fst (connect s6 p Opened);
              s8 = tryReconnect s7 p d8
          in dialed s5 = dialed st @ [p, p, p, p, p] \<and>
             dialed s6 = dialed s5 \<and>
             connectionCalls s6 = connectionCalls st @ map (maxReached p) (connectionListeners st) \<and>
             reconnectTimeouts s6 p = None \<and>
             fireReconnectTimer s6 p d7 = None \<and>
             map_of (connections s7) p = Some \<lparr>conn_peer = p, conn_open = True\<rparr> \<and>
             attemptsOf s7 p = 5 \<and>
             dialed s8 = dialed s7 \<and>
             connectionCalls s8 = connectionCalls s7 @ map (maxReached p) (connectionListeners st))"
proof -
  let ?s5 = "fireAll (tryReconnect st p (Failed m1)) p [Failed m2, Failed m3, Failed m4, Failed m5]"
  let ?s6 = "tryReconnect ?s5 p d6"
  let ?s7 = "fst (connect ?s6 p Opened)"
  let ?s8 = "tryReconnect ?s7 p d8"
  note f5 = five_failures [OF idle fresh, of m1 m2 m3 m4 m5]
  have i5: "\<not> isConnecting (stateOf ?s5 p)" using f5 by simp
  have full5: "MAX_RECONNECT_ATTEMPTS \<le> attemptsOf ?s5 p"
    using f5 by (simp add: MAX_RECONNECT_ATTEMPTS_def)
  have t5: "reconnectTimeouts ?s5 p = Some 16000" using f5 by simp
  have run6: "fireAll ?s5 p [d6] = ?s6"
    using fireAll_timer [OF t5, of d6 "[]"] by simp
  note f6 = tryReconnect_exhausted [OF i5 full5, of d6]
  have init6: "peer ?s6 \<noteq> None" using f6 f5 init by simp
  note f7 = connect_Opened [OF init6, of p]
  have i7: "\<not> isConnecting (stateOf ?s7 p)" using f7 f6 by simp
  have a7: "attemptsOf ?s7 p = 5" using f7 f6 f5 by simp
  have full7: "MAX_RECONNECT_ATTEMPTS \<le> attemptsOf ?s7 p"
    using a7 by (simp add: MAX_RECONNECT_ATTEMPTS_def)
  note f8 = tryReconnect_exhausted [OF i7 full7, of d8]
  have "dialed ?s5 = dialed st @ [p, p, p, p, p]" using f5 init by simp
  moreover have "dialed ?s6 = dialed ?s5" using f6 by simp
  moreover have "connectionCalls ?s6 = connectionCalls st @ map (maxReached p) (connectionListeners st)"
    using f6 f5 by simp
  moreover have "reconnectTimeouts ?s6 p = None" using f6 by simp
  moreover have "fireReconnectTimer ?s6 p d7 = None"
    using f6 by (simp add: fireReconnectTimer_def)
  moreover have "map_of (connections ?s7) p = Some \<lparr>conn_peer = p, conn_open = True\<rparr>"
    using f7 by simp
  moreover have "dialed ?s8 = dialed ?s7" using f8 by simp
  moreover have "connectionCalls ?s8 = connectionCalls ?s7 @ map (maxReached p) (connectionListeners st)"
    using f8 f7 f6 f5 by simp
  ultimately show ?thesis
    using a7 by (simp only: Let_def run6)
qed

text \<open>
  The theorem at a service whose local peer is \<open>me\<close>, with one connection subscriber,
  reconnecting to \<open>p\<close>.
\<close>

theorem C7_counter_survives_manual_connect_witness:
  "(let st = onConnection (newPeerService\<lparr>peer := Some ''me''\<rparr>) 0;
        s5 = fireAll (tryReconnect st ''p'' (Failed ''down'')) ''p''
               [Failed ''down'', Failed ''down'', Failed ''down'', Failed ''down''];
        s6 = fireAll s5 ''p'' [Failed ''down''];
        s7 = fst (connect s6 ''p'' Opened);
        s8 = tryReconnect s7 ''p'' Opened
    in \<not> isConnecting (stateOf st ''p'') \<and> attemptsOf st ''p'' = 0 \<and> peer st \<noteq> None \<and>
       dialed s5 = [''p'', ''p'', ''p'', ''p'', ''p''] \<and>
       dialed s6 = dialed s5 \<and>
       connectionCalls s6 =
         [(0, ''p'', ''Unknown'', False, Some ''Max reconnection attempts reached'')] \<and>
       fireReconnectTimer s6 ''p'' Opened = None \<and>
       map_of (connections s7) ''p'' = Some \<lparr>conn_peer = ''p'', conn_open = True\<rparr> \<and>
       attemptsOf s7 ''p'' = 5 \<and>
       dialed s8 = dialed s7 \<and>
       connectionCalls s8 =
         connectionCalls s7 @
         [(0, ''p'', ''Unknown'', False, Some ''Max reconnection attempts reached'')])"
proof -
  let ?st = "onConnection (newPeerService\<lparr>peer := Some ''me''\<rparr>) 0"
  have idle: "\<not> isConnecting (stateOf ?st ''p'')"
    by (simp add: stateOf_def newPeerService_def onConnection_def)
  have fresh: "attemptsOf ?st ''p'' = 0"
    by (simp add: attemptsOf_def newPeerService_def onConnection_def)
  have init: "peer ?st \<noteq> None"
    by (simp add: newPeerService_def onConnection_def)
  have logs: "dialed ?st = []" "connectionCalls ?st = []" "connectionListeners ?st = [0]"
    by (simp_all add: newPeerService_def onConnection_def)
  show ?thesis
    using C7_counter_survives_manual_connect
            [OF idle fresh init, of "''down''" "''down''" "''down''" "''down''" "''down''"
               "Failed ''down''" Opened Opened]
      idle fresh init
    by (simp add: Let_def logs maxReached_def)
qed

section \<open>Heartbeats\<close>

text \<open>
  Claim C5, on a run where the acknowledgement arrives long before the watch expires.
  A \<open>heartbeat\<close> is answered by \<open>heartbeat-ack\<close> with the same timestamp. The tick sends a
  heartbeat to the connected peer and arms the five-second watch. The data handler has no
  branch for \<open>heartbeat-ack\<close>: the acknowledgement leaves the state, and so the pending
  watch, as they were. When the watch fires the peer is reported with \<open>Connection
  timeout\<close> and dialled again.
\<close>

theorem C5_acknowledged_heartbeat_times_out:
  "\<forall>dg. (let st0 = onConnection (newPeerService\<lparr>peer := Some ''me''\<rparr>) 0;
            st1 = fst (connect st0 ''p'' Opened);
            st2 = heartbeatTick 0 st1;
            st3 = fst (onData dg st2 ''p'' (HeartbeatAck 0))
        in sent (fst (onData dg st1 ''p'' (Heartbeat 7))) = [(''p'', HeartbeatAck 7)] \<and>
           sent st2 = [(''p'', Heartbeat 0)] \<and>
           heartbeatTimers st2 = [''p''] \<and>
           st3 = st2 \<and>
           map_option connectionCalls (fireHeartbeatTimer st3 ''p'' Opened) =
             Some [(0, ''p'', ''Unknown'', True, None),
                   (0, ''p'', ''Unknown'', False, Some ''Connection timeout''),
                   (0, ''p'', ''Unknown'', True, None)] \<and>
           map_option dialed (fireHeartbeatTimer st3 ''p'' Opened) = Some [''p'', ''p''])"
  by (simp add: reconnect_defs newPeerService_def onConnection_def heartbeatTick_def
        heartbeatPeer_def send_def onData_def fireHeartbeatTimer_def handleConnectionTimeout_def)

section \<open>Connecting to oneself\<close>

text \<open>
  Claim C6, as the code has it. The guard is in the App: \<open>handleConnect\<close> with the id of
  the current user shows the toast \<open>You can't connect to yourself!\<close> and returns, without
  calling \<open>connect\<close>: the service, with its connections and its dials, is untouched, and
  so is the connecting flag. Nothing is thrown.
\<close>

theorem C6_handleConnect_guards_self:
  assumes "currentUser app = Some u" and "user_id u = remotePeerId"
  shows "service (handleConnect app remotePeerId d) = service app \<and>
         app_isConnecting (handleConnect app remotePeerId d) = app_isConnecting app \<and>
         currentUser (handleConnect app remotePeerId d) = currentUser app \<and>
         toasts (handleConnect app remotePeerId d) =
           toasts app @ [ToastError (''You can'' @ [CHR 0x27] @ ''t connect to yourself!'')]"
  using assms by (simp add: handleConnect_def)

text \<open>
  The theorem at a user \<open>me\<close> whose service has no connection yet.
\<close>

theorem C6_handleConnect_guards_self_witness:
  "(let app = \<lparr>currentUser = Some \<lparr>user_id = ''me'', user_name = ''SwiftEagle1''\<rparr>,
               app_isConnecting = False, toasts = [],
               service = newPeerService\<lparr>peer := Some ''me''\<rparr>\<rparr>
    in currentUser app = Some \<lparr>user_id = ''me'', user_name = ''SwiftEagle1''\<rparr> \<and>
       user_id \<lparr>user_id = ''me'', user_name = ''SwiftEagle1''\<rparr> = ''me'' \<and>
       service (handleConnect app ''me'' Opened) = service app \<and>
       connections (service (handleConnect app ''me'' Opened)) = [] \<and>
       dialed (service (handleConnect app ''me'' Opened)) = [] \<and>
       app_isConnecting (handleConnect app ''me'' Opened) = False \<and>
       toasts (handleConnect app ''me'' Opened) =
         [ToastError (''You can'' @ [CHR 0x27] @ ''t connect to yourself!'')])"
proof -
  let ?u = "\<lparr>user_id = ''me'', user_name = ''SwiftEagle1''\<rparr>"
  let ?app = "\<lparr>currentUser = Some ?u, app_isConnecting = False, toasts = [],
               service = newPeerService\<lparr>peer := Some ''me''\<rparr>\<rparr>"
  have cu: "currentUser ?app = Some ?u" by simp
  have uid: "user_id ?u = ''me''" by simp
  show ?thesis
    using C6_handleConnect_guards_self [OF cu uid, of Opened]
    by (simp add: Let_def newPeerService_def)
qed

text \<open>
  Against claim C6 as it is written: \<open>connect\<close> of the service does not compare the
  target with the local id. Called with the local id it dials; if the provider opens the
  channel, the promise resolves and a connection to oneself is registered, and if the
  provider reports an error, the rejection is the provider's.
\<close>

theorem C6_connect_self_counterexample:
  "(let st = newPeerService\<lparr>peer := Some ''me''\<rparr>
    in snd (connect st ''me'' Opened) = None \<and>
       map_of (connections (fst (connect st ''me'' Opened))) ''me'' =
         Some \<lparr>conn_peer = ''me'', conn_open = True\<rparr> \<and>
       dialed (fst (connect st ''me'' Opened)) = [''me''] \<and>
       snd (connect st ''me'' (Failed ''Could not connect to peer me'')) =
         Some (Exn ''Could not connect to peer me'') \<and>
       dialed (fst (connect st ''me'' (Failed ''Could not connect to peer me''))) = [''me''])"
  by (simp add: connect_def handleConnection_def updatePeersList_def notifyConnectionStatus_def
        newPeerService_def Let_def)

end
